theory Spec2Isabelle
  imports Complex_Main "HOL-Library.AList"
begin

section \<open>Values handled by the store\<close>

text \<open>
  The store (\<^verbatim>\<open>CacheLocalStorage\<close> in \<^verbatim>\<open>src/src/worker.ts\<close>) accepts any value \<open>data: T\<close>.
  The values of the model are \<open>undefined\<close>, \<open>null\<close>, booleans, numbers, strings, arrays,
  plain objects and functions. Numbers are integers (the code never computes with a
  stored number), strings are lists of bytes (their length is the byte length that
  \<^verbatim>\<open>TextEncoder\<close> and \<^verbatim>\<open>Blob\<close> report), an object is the list of its own enumerable
  properties in the object's property order, and a function is known by its \<open>name\<close> and
  its \<open>length\<close> (the number of declared parameters) and has no enumerable property of its
  own.
\<close>

datatype jsval =
    Undefined
  | Null
  | Bool bool
  | Num int
  | Str string
  | Arr "jsval list"
  | Obj "(string \<times> jsval) list"
  | Function string nat

type_synonym bytes = "nat list"

datatype error =
    RequiredFieldMissing string
  | InvalidType string string string
  | ValidationFailed string
  | StorageQuotaExceeded
  | EncryptionNotAvailable
  | DecryptionNotAvailable
  | ItemNotFound
  | ItemWithKeyNotFound string
  | NoDecompressionMethod
  | TypeError
  | SyntaxError
  | OperationError
  | DataError
  | InvalidCharacterError
  | InflateError
  | CacheRejected

text \<open>The operator \<^verbatim>\<open>typeof\<close>, on the values of the model.\<close>

fun typeof :: "jsval \<Rightarrow> string" where
  "typeof Undefined = ''undefined''"
| "typeof Null = ''object''"
| "typeof (Bool b) = ''boolean''"
| "typeof (Num n) = ''number''"
| "typeof (Str s) = ''string''"
| "typeof (Arr xs) = ''object''"
| "typeof (Obj fs) = ''object''"
| "typeof (Function f n) = ''function''"

text \<open>Truthiness, as tested by \<^verbatim>\<open>if (v)\<close> and \<^verbatim>\<open>!v\<close>.\<close>

fun truthy :: "jsval \<Rightarrow> bool" where
  "truthy Undefined = False"
| "truthy Null = False"
| "truthy (Bool b) = b"
| "truthy (Num n) = (n \<noteq> 0)"
| "truthy (Str s) = (s \<noteq> [])"
| "truthy (Arr xs) = True"
| "truthy (Obj fs) = True"
| "truthy (Function f n) = True"

text \<open>
  The result of a property read as the test \<^verbatim>\<open>value === undefined\<close> sees it: \<open>None\<close> when
  the value is \<open>undefined\<close>, whether the property is absent or holds \<open>undefined\<close>.
\<close>

fun defined :: "jsval option \<Rightarrow> jsval option" where
  "defined None = None"
| "defined (Some Undefined) = None"
| "defined (Some v) = Some v"

text \<open>Decimal text of a number, as property keys of arrays and \<^verbatim>\<open>toString\<close> print it.\<close>

fun show_nat :: "nat \<Rightarrow> string" where
  "show_nat n =
     (if n < 10 then [char_of (48 + n)]
      else show_nat (n div 10) @ [char_of (48 + n mod 10)])"

declare show_nat.simps [simp del]

definition index_of_key :: "string \<Rightarrow> nat \<Rightarrow> nat option" where
  "index_of_key key len = find (\<lambda>i. show_nat i = key) [0..<len]"

fun is_digit :: "char \<Rightarrow> bool" where
  "is_digit c = (48 \<le> (of_char c :: nat) \<and> (of_char c :: nat) \<le> 57)"

definition digits_value :: "string \<Rightarrow> int" where
  "digits_value key = foldl (\<lambda>n c. 10 * n + (of_char c - 48)) 0 key"

text \<open>
  An array index, in the sense of the language: a key that is the canonical decimal
  text (no leading zero) of an integer below \<open>2\<^sup>3\<^sup>2 - 1\<close>.
\<close>

definition array_index :: "string \<Rightarrow> int option" where
  "array_index key =
     (if key \<noteq> [] \<and> list_all is_digit key \<and> (key = ''0'' \<or> hd key \<noteq> CHR ''0'')
         \<and> digits_value key < 4294967295
      then Some (digits_value key) else None)"

text \<open>
  The order in which an object lists its own properties: the array indices first,
  ascending, then the other keys in the order they were added.
\<close>

definition property_order :: "(string \<times> jsval) list \<Rightarrow> (string \<times> jsval) list" where
  "property_order ps =
     sort_key (\<lambda>p. case array_index (fst p) of None \<Rightarrow> 0 | Some n \<Rightarrow> n)
       (filter (\<lambda>p. array_index (fst p) \<noteq> None) ps)
     @ filter (\<lambda>p. array_index (fst p) = None) ps"

text \<open>
  Own enumerable properties, as the spread \<^verbatim>\<open>{ ...v }\<close> copies them, and the object
  \<^verbatim>\<open>{ ...a, ...b }\<close>: the properties of \<open>a\<close> are defined on a new object, then those of
  \<open>b\<close>; a key defined twice keeps its first place and takes the later value; the new
  object lists them in property order. \<open>object_of\<close> is the object that results from
  defining the given properties one after the other.
\<close>

fun own_props :: "jsval \<Rightarrow> (string \<times> jsval) list" where
  "own_props (Str s) = map (\<lambda>i. (show_nat i, Str [s ! i])) [0..<length s]"
| "own_props (Arr xs) = map (\<lambda>i. (show_nat i, xs ! i)) [0..<length xs]"
| "own_props (Obj fs) = fs"
| "own_props v = []"

definition object_of :: "(string \<times> jsval) list \<Rightarrow> jsval" where
  "object_of ps = Obj (property_order (fold (\<lambda>(k, v) acc. AList.update k v acc) ps []))"

definition spread_merge :: "jsval \<Rightarrow> jsval \<Rightarrow> jsval" where
  "spread_merge a b = object_of (own_props a @ own_props b)"

section \<open>Stored entries\<close>

text \<open>
  The \<^verbatim>\<open>data\<close> field of a stored entry is, at run time, \<open>undefined\<close> (what
  \<^verbatim>\<open>JSON.stringify\<close> returns for \<open>undefined\<close> and for a function), a string (the serialized
  text), a \<^verbatim>\<open>Uint8Array\<close> (the gzip output), an \<^verbatim>\<open>EncryptedData\<close> object, or the plain object
  with the keys \<open>"0"\<close>, \<open>"1"\<close>, ... that a \<^verbatim>\<open>Uint8Array\<close> becomes when it goes through
  \<^verbatim>\<open>JSON.stringify\<close> and \<^verbatim>\<open>response.json()\<close>.
\<close>

record EncryptedData =
  enc_data :: bytes
  enc_iv :: bytes
  wasCompressed :: bool

datatype payload =
    PUndefined
  | PString string
  | PBytes bytes
  | PEncrypted EncryptedData
  | PIndexed "(string \<times> nat) list"

record Metadata =
  compressed :: bool
  originalSize :: nat
  compressedSize :: nat

text \<open>The object \<^verbatim>\<open>storageData\<close> that \<^verbatim>\<open>setItem\<close> builds: \<^verbatim>\<open>{ data, metadata }\<close>.\<close>

record entry =
  entry_data :: payload
  entry_metadata :: "Metadata option"

text \<open>
  The worker's \<^verbatim>\<open>StorageData\<close>: \<^verbatim>\<open>{ data, size, timestamp }\<close>. The timestamp only
  feeds the \<^verbatim>\<open>Last-Modified\<close> header of the mirrored response; headers are not modelled.
\<close>

record StorageData =
  sd_data :: entry
  sd_size :: nat

fun payload_truthy :: "payload \<Rightarrow> bool" where
  "payload_truthy PUndefined = False"
| "payload_truthy (PString s) = (s \<noteq> [])"
| "payload_truthy (PBytes bs) = True"
| "payload_truthy (PEncrypted e) = True"
| "payload_truthy (PIndexed kvs) = True"

fun join_commas :: "string list \<Rightarrow> string" where
  "join_commas [] = []"
| "join_commas [x] = x"
| "join_commas (x # y # ys) = x @ '','' @ join_commas (y # ys)"

text \<open>
  \<^verbatim>\<open>ToString\<close>, which \<^verbatim>\<open>JSON.parse\<close> and the \<^verbatim>\<open>Blob\<close> constructor apply to an argument that is
  not a string.
\<close>

fun payload_text :: "payload \<Rightarrow> string" where
  "payload_text PUndefined = ''undefined''"
| "payload_text (PString s) = s"
| "payload_text (PBytes bs) = join_commas (map show_nat bs)"
| "payload_text (PEncrypted e) = ''[object Object]''"
| "payload_text (PIndexed kvs) = ''[object Object]''"

text \<open>The serialized form as a value: \<^verbatim>\<open>JSON.stringify\<close> returns a string or \<open>undefined\<close>.\<close>

fun text_payload :: "string option \<Rightarrow> payload" where
  "text_payload None = PUndefined"
| "text_payload (Some s) = PString s"

text \<open>
  What \<^verbatim>\<open>JSON.stringify\<close> followed by \<^verbatim>\<open>response.json()\<close> makes of an entry: strings,
  numbers, booleans and arrays of numbers come back as they were, a property that holds
  \<open>undefined\<close> is left out and reads as \<open>undefined\<close> again, a \<^verbatim>\<open>Uint8Array\<close> comes back as
  a plain object keyed by its indices.
\<close>

fun json_image_payload :: "payload \<Rightarrow> payload" where
  "json_image_payload (PBytes bs) = PIndexed (zip (map show_nat [0..<length bs]) bs)"
| "json_image_payload p = p"

definition json_image :: "entry \<Rightarrow> entry" where
  "json_image e = e\<lparr>entry_data := json_image_payload (entry_data e)\<rparr>"

section \<open>The platform\<close>

text \<open>
  The browser capabilities the code calls are parameters of the model: the JSON codec
  (\<^verbatim>\<open>JSON.stringify\<close> returns \<open>None\<close> for \<open>undefined\<close>), the read of a property that is not
  among a value's own ones (the prototype chain, whose getters may throw; for a function
  also its \<open>name\<close> and \<open>length\<close>), the gzip streams and \<^verbatim>\<open>pako\<close>, AES-GCM of
  \<^verbatim>\<open>crypto.subtle\<close> (whether \<^verbatim>\<open>importKey\<close> accepts the key, then \<^verbatim>\<open>encrypt\<close> and
  \<^verbatim>\<open>decrypt\<close>, where \<open>None\<close> is a rejected promise), base64, whether
  \<^verbatim>\<open>navigator.serviceWorker.register\<close> resolves, whether the Cache API rejects, and the byte
  length of the response body written for an entry. Every \<^verbatim>\<open>await\<close> is taken to settle:
  a promise that never settles (a worker that never answers) is not modelled.
\<close>

record platform =
  JSON_stringify :: "jsval \<Rightarrow> string option"
  JSON_parse :: "string \<Rightarrow> jsval option"
  inherited :: "jsval \<Rightarrow> string \<Rightarrow> error + jsval option"
  serviceWorker_in_navigator :: bool
  register_resolves :: bool
  subtle_in_crypto :: bool
  subtle_importKey :: "string \<Rightarrow> bool"
  CompressionStream_in_window :: bool
  DecompressionStream_in_window :: bool
  pako_in_window :: bool
  stream_gzip :: "bytes \<Rightarrow> bytes option"
  stream_gunzip :: "bytes \<Rightarrow> bytes option"
  pako_gzip :: "string option \<Rightarrow> int \<Rightarrow> bytes option"
  pako_ungzip :: "payload \<Rightarrow> string option"
  subtle_encrypt :: "string \<Rightarrow> bytes \<Rightarrow> bytes \<Rightarrow> bytes option"
  subtle_decrypt :: "string \<Rightarrow> bytes \<Rightarrow> bytes \<Rightarrow> bytes option"
  btoa :: "bytes \<Rightarrow> string"
  atob :: "string \<Rightarrow> bytes option"
  caches_reject :: bool
  body_size :: "entry \<Rightarrow> nat"

definition TextEncoder_encode :: "string \<Rightarrow> bytes" where
  "TextEncoder_encode s = map of_char s"

definition TextDecoder_decode :: "bytes \<Rightarrow> string" where
  "TextDecoder_decode bs = map char_of bs"

section \<open>Schema validation\<close>

text \<open>
  Property read \<^verbatim>\<open>(data as any)[key]\<close>. Reading a property of \<open>undefined\<close> or \<open>null\<close>
  throws a \<^verbatim>\<open>TypeError\<close>. An own property is found first (a string and an array have
  \<open>length\<close> and their indices), then the prototype chain is followed.
\<close>

definition inherited_prop :: "platform \<Rightarrow> jsval \<Rightarrow> string \<Rightarrow> error + jsval option" where
  "inherited_prop P v key = map_sum id defined (inherited P v key)"

fun get_prop :: "platform \<Rightarrow> jsval \<Rightarrow> string \<Rightarrow> error + jsval option" where
  "get_prop P Undefined key = Inl TypeError"
| "get_prop P Null key = Inl TypeError"
| "get_prop P (Str s) key =
     (if key = ''length'' then Inr (Some (Num (int (length s))))
      else (case index_of_key key (length s) of
              Some i \<Rightarrow> Inr (Some (Str [s ! i]))
            | None \<Rightarrow> inherited_prop P (Str s) key))"
| "get_prop P (Arr xs) key =
     (if key = ''length'' then Inr (Some (Num (int (length xs))))
      else (case index_of_key key (length xs) of
              Some i \<Rightarrow> Inr (defined (Some (xs ! i)))
            | None \<Rightarrow> inherited_prop P (Arr xs) key))"
| "get_prop P (Obj fs) key =
     (case map_of fs key of
        Some x \<Rightarrow> Inr (defined (Some x))
      | None \<Rightarrow> inherited_prop P (Obj fs) key)"
| "get_prop P v key = inherited_prop P v key"

datatype SchemaType = TString | TNumber | TBoolean | TObject | TArray

fun SchemaType_text :: "SchemaType \<Rightarrow> string" where
  "SchemaType_text TString = ''string''"
| "SchemaType_text TNumber = ''number''"
| "SchemaType_text TBoolean = ''boolean''"
| "SchemaType_text TObject = ''object''"
| "SchemaType_text TArray = ''array''"

record SchemaDefinition =
  def_type :: SchemaType
  def_required :: bool
  def_validate :: "(jsval \<Rightarrow> bool) option"

type_synonym Schema = "(string \<times> SchemaDefinition) list"

text \<open>
  \<^verbatim>\<open>validateSchema\<close>: the loop over \<^verbatim>\<open>Object.entries(schema)\<close>, one equation per
  iteration. Every \<^verbatim>\<open>throw\<close> is an \<open>Inl\<close>; the loop falls through to \<^verbatim>\<open>return true\<close>.
\<close>

fun validateSchema :: "platform \<Rightarrow> jsval \<Rightarrow> Schema \<Rightarrow> error + bool" where
  "validateSchema P data [] = Inr True"
| "validateSchema P data ((key, d) # rest) =
     (case get_prop P data key of
        Inl e \<Rightarrow> Inl e
      | Inr val \<Rightarrow>
          if def_required d \<and> val = None then Inl (RequiredFieldMissing key)
          else (case val of
                  None \<Rightarrow> validateSchema P data rest
                | Some v \<Rightarrow>
                    if typeof v \<noteq> SchemaType_text (def_type d)
                    then Inl (InvalidType key (SchemaType_text (def_type d)) (typeof v))
                    else if (case def_validate d of
                               None \<Rightarrow> False
                             | Some p \<Rightarrow> \<not> p v)
                    then Inl (ValidationFailed key)
                    else validateSchema P data rest))"

section \<open>State\<close>

record CompressionOptions =
  enabled :: bool
  level :: int
  threshold :: int

record compression_option =
  opt_enabled :: bool
  opt_level :: "int option"
  opt_threshold :: "int option"

record StorageOptions =
  opt_maxSize :: "int option"
  opt_encryptionKey :: "string option"
  opt_namespace :: "string option"
  opt_cacheDuration :: "int option"
  opt_compression :: "compression_option option"

text \<open>
  The state of \<^verbatim>\<open>initPromise\<close>: pending while \<^verbatim>\<open>init\<close> is in flight, resolved once it has
  completed (\<^verbatim>\<open>init\<close> catches every failure, so the promise is never rejected).
\<close>

datatype promise = Pending | Resolved

text \<open>The calls that leave the facade: the ghost log \<open>calls\<close> records each one in order.\<close>

datatype backend_call =
    Register
  | PostMessage string
  | CachesOpen string
  | CachesDelete string
  | CacheKeys
  | CacheMatch string
  | CachePut string
  | CacheDelete string

text \<open>
  One facade instance (the fields of the class), the worker's \<^verbatim>\<open>storage\<close> map, and the
  browser's \<^verbatim>\<open>caches\<close>, a map from cache name to a map from URL to the stored body.
  The maps are association lists in insertion order, as a JavaScript \<^verbatim>\<open>Map\<close> iterates.
\<close>

record world =
  maxSize :: int
  encryptionKey :: "string option"
  namespace :: string
  cacheDuration :: int
  hasWebCrypto :: bool
  hasServiceWorker :: bool
  compression :: CompressionOptions
  currentSize :: int
  cacheStore :: "(string \<times> jsval) list"
  initPromise :: promise
  storage :: "(string \<times> StorageData) list"
  caches :: "(string \<times> (string \<times> entry) list) list"
  calls :: "backend_call list"

definition log_call :: "backend_call \<Rightarrow> world \<Rightarrow> world" where
  "log_call c w = w\<lparr>calls := calls w @ [c]\<rparr>"

definition cache_named :: "world \<Rightarrow> string \<Rightarrow> (string \<times> entry) list" where
  "cache_named w ns = (case map_of (caches w) ns of None \<Rightarrow> [] | Some c \<Rightarrow> c)"

section \<open>The worker\<close>

definition CACHE_NAME :: string where
  "CACHE_NAME = ''application''"

definition storage_url :: "string \<Rightarrow> string" where
  "storage_url key = ''/cache-local-storage/storage/'' @ key"

text \<open>
  \<^verbatim>\<open>persistToCache\<close> writes one response per key of \<^verbatim>\<open>storage\<close>, its body the JSON text
  of \<^verbatim>\<open>value.data\<close>. The handler does not await it; the model runs it at once. No facade
  operation of a worker-backed instance reads what it writes.
\<close>

definition persistToCache :: "platform \<Rightarrow> string \<Rightarrow> world \<Rightarrow> world" where
  "persistToCache P ns w =
     (if caches_reject P then w
      else
        let name = (if ns = [] then CACHE_NAME else ns);
            cache = fold (\<lambda>(key, v) c. AList.update (storage_url key) (json_image (sd_data v)) c)
                      (storage w) (cache_named w name)
        in w\<lparr>caches := AList.update name cache (caches w)\<rparr>)"

text \<open>The cases of the worker's \<^verbatim>\<open>message\<close> handler, each with its reply.\<close>

definition on_store :: "platform \<Rightarrow> string \<Rightarrow> entry \<Rightarrow> nat \<Rightarrow> string \<Rightarrow> world \<Rightarrow> world" where
  "on_store P key d sz ns w =
     persistToCache P ns
       (w\<lparr>storage := AList.update key \<lparr>sd_data = d, sd_size = sz\<rparr> (storage w)\<rparr>)"

definition on_retrieve :: "string \<Rightarrow> world \<Rightarrow> entry option" where
  "on_retrieve key w = map_option sd_data (map_of (storage w) key)"

definition on_delete :: "platform \<Rightarrow> string \<Rightarrow> string \<Rightarrow> world \<Rightarrow> world" where
  "on_delete P key ns w =
     persistToCache P ns (w\<lparr>storage := AList.delete key (storage w)\<rparr>)"

definition on_clear :: "platform \<Rightarrow> string \<Rightarrow> world \<Rightarrow> world" where
  "on_clear P ns w = persistToCache P ns (w\<lparr>storage := []\<rparr>)"

definition on_getSize :: "world \<Rightarrow> nat" where
  "on_getSize w = fold (\<lambda>(key, v) totalSize. totalSize + sd_size v) (storage w) 0"

section \<open>Throwing and catching\<close>

text \<open>
  An asynchronous function of the class returns the state it leaves and either the
  value its promise is fulfilled with (\<open>Inr\<close>) or the error the promise is rejected with
  (\<open>Inl\<close>), which is what an \<^verbatim>\<open>await\<close> of it throws. \<open>and_then\<close> is sequencing under
  \<^verbatim>\<open>await\<close>, \<open>try_catch\<close> is \<^verbatim>\<open>try { ... } catch (error) { ... }\<close>.
\<close>

definition and_then ::
  "world \<times> (error + 'a) \<Rightarrow> (world \<Rightarrow> 'a \<Rightarrow> world \<times> (error + 'b)) \<Rightarrow> world \<times> (error + 'b)" where
  "and_then m f = (case m of (w, Inl e) \<Rightarrow> (w, Inl e) | (w, Inr x) \<Rightarrow> f w x)"

definition try_catch ::
  "world \<times> (error + 'a) \<Rightarrow> (world \<Rightarrow> error \<Rightarrow> world \<times> (error + 'a)) \<Rightarrow> world \<times> (error + 'a)" where
  "try_catch m h = (case m of (w, Inl e) \<Rightarrow> h w e | (w, Inr x) \<Rightarrow> (w, Inr x))"

section \<open>The facade: construction and initialization\<close>

text \<open>
  The Cache API. \<^verbatim>\<open>caches.open\<close> is the call, logged when it is made, and its completion,
  which creates the named cache when it does not exist, or rejects.
\<close>

definition caches_opened :: "platform \<Rightarrow> string \<Rightarrow> world \<Rightarrow> world \<times> (error + unit)" where
  "caches_opened P ns w =
     (if caches_reject P then (w, Inl CacheRejected)
      else (w\<lparr>caches := AList.update ns (cache_named w ns) (caches w)\<rparr>, Inr ()))"

definition caches_open :: "platform \<Rightarrow> string \<Rightarrow> world \<Rightarrow> world \<times> (error + unit)" where
  "caches_open P ns w = caches_opened P ns (log_call (CachesOpen ns) w)"

definition cache_put :: "string \<Rightarrow> string \<Rightarrow> entry \<Rightarrow> world \<Rightarrow> world" where
  "cache_put ns url body w =
     (log_call (CachePut url) w)
       \<lparr>caches := AList.update ns (AList.update url body (cache_named w ns)) (caches w)\<rparr>"

definition cache_match :: "string \<Rightarrow> string \<Rightarrow> world \<Rightarrow> world \<times> entry option" where
  "cache_match ns url w = (log_call (CacheMatch url) w, map_of (cache_named w ns) url)"

definition cache_delete :: "string \<Rightarrow> string \<Rightarrow> world \<Rightarrow> world" where
  "cache_delete ns url w =
     (log_call (CacheDelete url) w)
       \<lparr>caches := AList.update ns (AList.delete url (cache_named w ns)) (caches w)\<rparr>"

text \<open>
  \<^verbatim>\<open>postServiceWorkerMessage\<close>, for the \<open>store\<close> and \<open>retrieve\<close> messages the facade sends;
  the reply is what the worker's handler posts back.
\<close>

definition post_store :: "platform \<Rightarrow> string \<Rightarrow> entry \<Rightarrow> nat \<Rightarrow> world \<Rightarrow> world" where
  "post_store P key d sz w =
     on_store P key d sz (namespace w) (log_call (PostMessage ''store'') w)"

definition post_retrieve :: "string \<Rightarrow> world \<Rightarrow> world \<times> entry option" where
  "post_retrieve key w = (log_call (PostMessage ''retrieve'') w, on_retrieve key w)"

text \<open>
  An asynchronous function runs synchronously up to its first \<^verbatim>\<open>await\<close> and resumes when
  the awaited promise settles. The functions that \<^verbatim>\<open>init\<close> runs are written in these two
  parts: \<open>_start\<close> makes the first call (\<^verbatim>\<open>register\<close>, the \<open>getSize\<close> message, or
  \<^verbatim>\<open>caches.open\<close>), \<open>_resume\<close> is the rest. The function as a whole is the one after the
  other. Which branch was started is read from \<open>hasServiceWorker\<close>, which nothing changes
  in between (only the \<^verbatim>\<open>catch\<close> of \<^verbatim>\<open>initServiceWorker\<close> assigns it). The waits for
  \<^verbatim>\<open>navigator.serviceWorker.ready\<close> and for the \<open>controllerchange\<close> event make no backend
  call and are not in the log.
\<close>

definition initServiceWorker_start :: "world \<Rightarrow> world" where
  "initServiceWorker_start w = log_call Register w"

definition initServiceWorker_resume :: "platform \<Rightarrow> world \<Rightarrow> world \<times> (error + unit)" where
  "initServiceWorker_resume P w =
     try_catch (if register_resolves P then (w, Inr ()) else (w, Inl TypeError))
       (\<lambda>w1 e. (w1\<lparr>hasServiceWorker := False\<rparr>, Inr ()))"

definition initServiceWorker :: "platform \<Rightarrow> world \<Rightarrow> world \<times> (error + unit)" where
  "initServiceWorker P w = initServiceWorker_resume P (initServiceWorker_start w)"

definition calculateCacheSize :: "platform \<Rightarrow> (string \<times> entry) list \<Rightarrow> world \<Rightarrow> world \<times> nat" where
  "calculateCacheSize P cache w =
     (fold (\<lambda>(url, body) v. log_call (CacheMatch url) v) cache w,
      fold (\<lambda>(url, body) sz. sz + body_size P body) cache 0)"

definition calculateCurrentSize_start :: "world \<Rightarrow> world" where
  "calculateCurrentSize_start w =
     (if hasServiceWorker w then log_call (PostMessage ''getSize'') w
      else log_call (CachesOpen (namespace w)) w)"

definition calculateCurrentSize_resume :: "platform \<Rightarrow> world \<Rightarrow> world \<times> (error + int)" where
  "calculateCurrentSize_resume P w =
     and_then
       (try_catch
          (if hasServiceWorker w then (w\<lparr>currentSize := int (on_getSize w)\<rparr>, Inr ())
           else and_then (caches_opened P (namespace w) w)
                  (\<lambda>w1 u.
                     let w2 = log_call CacheKeys w1
                     in case calculateCacheSize P (cache_named w2 (namespace w2)) w2 of
                          (w3, n) \<Rightarrow> (w3\<lparr>currentSize := int n\<rparr>, Inr ())))
          (\<lambda>w1 e. (w1\<lparr>currentSize := 0\<rparr>, Inr ())))
       (\<lambda>w1 u. (w1, Inr (currentSize w1)))"

definition calculateCurrentSize :: "platform \<Rightarrow> world \<Rightarrow> world \<times> (error + int)" where
  "calculateCurrentSize P w = calculateCurrentSize_resume P (calculateCurrentSize_start w)"

definition init_start :: "world \<Rightarrow> world" where
  "init_start w =
     (if hasServiceWorker w then initServiceWorker_start w else calculateCurrentSize_start w)"

definition init_resume :: "platform \<Rightarrow> world \<Rightarrow> world \<times> (error + unit)" where
  "init_resume P w =
     try_catch
       (if hasServiceWorker w then
          and_then (initServiceWorker_resume P w)
            (\<lambda>w1 u. and_then (calculateCurrentSize P w1) (\<lambda>w2 n. (w2, Inr ())))
        else and_then (calculateCurrentSize_resume P w) (\<lambda>w2 n. (w2, Inr ())))
       (\<lambda>w1 e. (w1, Inr ()))"

definition init :: "platform \<Rightarrow> world \<Rightarrow> world \<times> (error + unit)" where
  "init P w = init_resume P (init_start w)"

text \<open>The fields as the constructor sets them, before it calls \<^verbatim>\<open>init\<close>.\<close>

definition new_facade ::
  "platform \<Rightarrow> StorageOptions \<Rightarrow> (string \<times> StorageData) list \<Rightarrow>
   (string \<times> (string \<times> entry) list) list \<Rightarrow> world" where
  "new_facade P options sw cs =
     \<lparr> maxSize = (case opt_maxSize options of
                    None \<Rightarrow> 50 * 1024 * 1024
                  | Some m \<Rightarrow> if m = 0 then 50 * 1024 * 1024 else m),
       encryptionKey = opt_encryptionKey options,
       namespace = (case opt_namespace options of
                      None \<Rightarrow> ''application''
                    | Some n \<Rightarrow> if n = [] then ''application'' else n),
       cacheDuration = (case opt_cacheDuration options of
                          None \<Rightarrow> 31536000
                        | Some c \<Rightarrow> if c = 0 then 31536000 else c),
       hasWebCrypto = subtle_in_crypto P,
       hasServiceWorker = serviceWorker_in_navigator P,
       compression =
         \<lparr> enabled = (case opt_compression options of None \<Rightarrow> False | Some c \<Rightarrow> opt_enabled c),
           level = (case opt_compression options of
                      None \<Rightarrow> 6
                    | Some c \<Rightarrow> (case opt_level c of None \<Rightarrow> 6 | Some l \<Rightarrow> l)),
           threshold = (case opt_compression options of
                          None \<Rightarrow> 1024
                        | Some c \<Rightarrow> (case opt_threshold c of None \<Rightarrow> 1024 | Some t \<Rightarrow> t)) \<rparr>,
       currentSize = 0,
       cacheStore = [],
       initPromise = Pending,
       storage = sw,
       caches = cs,
       calls = [] \<rparr>"

text \<open>
  The constructor ends with \<^verbatim>\<open>this.initPromise = this.init()\<close>: when it returns, \<^verbatim>\<open>init\<close>
  has made its first call and is in flight.
\<close>

definition constructor ::
  "platform \<Rightarrow> StorageOptions \<Rightarrow> (string \<times> StorageData) list \<Rightarrow>
   (string \<times> (string \<times> entry) list) list \<Rightarrow> world" where
  "constructor P options sw cs = init_start (new_facade P options sw cs)"

text \<open>
  The promise settles when \<^verbatim>\<open>init\<close> has run to its end, and it has done so when the code
  after \<^verbatim>\<open>await this.initPromise\<close> runs. An operation that does not await the promise runs
  on the state as it is, with \<^verbatim>\<open>init\<close> still in flight if it has not ended. The runs the
  model follows are those in which the operations come one at a time and the rest of an
  \<^verbatim>\<open>init\<close> in flight runs in one piece, at an \<^verbatim>\<open>await\<close> of its promise (or, which is the
  same transition, on its own between two operations): the steps of \<^verbatim>\<open>init\<close> are not
  interleaved with the steps of an operation that does not wait for it, as they may be
  in the browser.
\<close>

definition await_initPromise :: "platform \<Rightarrow> world \<Rightarrow> world" where
  "await_initPromise P w =
     (if initPromise w = Pending then (fst (init_resume P w))\<lparr>initPromise := Resolved\<rparr> else w)"

section \<open>The codec\<close>

definition dataToString :: "platform \<Rightarrow> payload \<Rightarrow> string" where
  "dataToString P d =
     (case d of PString s \<Rightarrow> s | PBytes bs \<Rightarrow> btoa P bs | _ \<Rightarrow> btoa P [])"

definition stringToData :: "platform \<Rightarrow> string \<Rightarrow> bool \<Rightarrow> error + payload" where
  "stringToData P str wasComp =
     (if \<not> wasComp then Inr (PString str)
      else (case atob P str of
              None \<Rightarrow> Inl InvalidCharacterError
            | Some bs \<Rightarrow> Inr (PBytes bs)))"

text \<open>
  \<^verbatim>\<open>encrypt\<close>; \<open>iv\<close> is what \<^verbatim>\<open>crypto.getRandomValues\<close> returns in this call. An empty key
  string is falsy, like an absent one. \<^verbatim>\<open>String.fromCharCode.apply(null, data)\<close> is the
  empty string when \<open>data\<close> is \<open>undefined\<close> or has no \<open>length\<close>.
\<close>

definition encrypt :: "platform \<Rightarrow> world \<Rightarrow> bytes \<Rightarrow> payload \<Rightarrow> error + EncryptedData" where
  "encrypt P w iv d =
     (case encryptionKey w of
        None \<Rightarrow> Inl EncryptionNotAvailable
      | Some k \<Rightarrow>
          if k = [] \<or> \<not> hasWebCrypto w then Inl EncryptionNotAvailable
          else if \<not> subtle_importKey P k then Inl DataError
          else (case subtle_encrypt P k iv (TextEncoder_encode (dataToString P d)) of
                  None \<Rightarrow> Inl OperationError
                | Some ct \<Rightarrow>
                    Inr \<lparr> enc_data = ct, enc_iv = iv,
                          wasCompressed = (case d of PBytes bs \<Rightarrow> True | _ \<Rightarrow> False) \<rparr>))"

text \<open>
  \<^verbatim>\<open>decrypt\<close>. After the key is imported, reading \<^verbatim>\<open>iv\<close> of \<open>undefined\<close> throws; on
  another value that is not an \<^verbatim>\<open>EncryptedData\<close> the fields \<^verbatim>\<open>iv\<close> and \<^verbatim>\<open>data\<close> are
  \<open>undefined\<close>, and \<^verbatim>\<open>new Uint8Array(undefined)\<close> is empty.
\<close>

definition decrypt :: "platform \<Rightarrow> world \<Rightarrow> payload \<Rightarrow> error + payload" where
  "decrypt P w d =
     (case encryptionKey w of
        None \<Rightarrow> Inl DecryptionNotAvailable
      | Some k \<Rightarrow>
          if k = [] \<or> \<not> hasWebCrypto w then Inl DecryptionNotAvailable
          else if \<not> subtle_importKey P k then Inl DataError
          else if d = PUndefined then Inl TypeError
          else (case (case d of
                        PEncrypted e \<Rightarrow> subtle_decrypt P k (enc_iv e) (enc_data e)
                      | _ \<Rightarrow> subtle_decrypt P k [] []) of
                  None \<Rightarrow> Inl OperationError
                | Some pt \<Rightarrow>
                    stringToData P (TextDecoder_decode pt)
                      (case d of PEncrypted e \<Rightarrow> wasCompressed e | _ \<Rightarrow> False)))"

text \<open>
  \<^verbatim>\<open>compress\<close>, on what \<^verbatim>\<open>JSON.stringify\<close> returned. \<^verbatim>\<open>TextEncoder.encode(undefined)\<close> is
  empty. Whatever the compression throws is caught and the input returned.
\<close>

definition compress :: "platform \<Rightarrow> world \<Rightarrow> string option \<Rightarrow> payload" where
  "compress P w s =
     (if \<not> enabled (compression w) then text_payload s
      else if int (length (TextEncoder_encode (case s of None \<Rightarrow> [] | Some t \<Rightarrow> t)))
                < threshold (compression w)
      then text_payload s
      else if CompressionStream_in_window P then
        (case stream_gzip P (TextEncoder_encode (case s of None \<Rightarrow> [] | Some t \<Rightarrow> t)) of
           None \<Rightarrow> text_payload s
         | Some c \<Rightarrow> PBytes c)
      else if pako_in_window P then
        (case pako_gzip P s (level (compression w)) of
           None \<Rightarrow> text_payload s
         | Some c \<Rightarrow> PBytes c)
      else text_payload s)"

text \<open>
  \<^verbatim>\<open>decompress\<close>. \<^verbatim>\<open>writer.write\<close> of a \<^verbatim>\<open>DecompressionStream\<close> rejects with a
  \<^verbatim>\<open>TypeError\<close> when the chunk is not a buffer, and when the bytes are not gzip data.
\<close>

definition decompress :: "platform \<Rightarrow> world \<Rightarrow> payload \<Rightarrow> error + payload" where
  "decompress P w d =
     (if \<not> enabled (compression w) then Inr d
      else if (case d of PString s \<Rightarrow> True | _ \<Rightarrow> False) then Inr d
      else if DecompressionStream_in_window P then
        (case d of
           PBytes bs \<Rightarrow>
             (case stream_gunzip P bs of
                None \<Rightarrow> Inl TypeError
              | Some out \<Rightarrow> Inr (PString (TextDecoder_decode out)))
         | _ \<Rightarrow> Inl TypeError)
      else if pako_in_window P then
        (case pako_ungzip P d of
           None \<Rightarrow> Inl InflateError
         | Some s \<Rightarrow> Inr (PString s))
      else Inl NoDecompressionMethod)"

text \<open>
  The size \<^verbatim>\<open>setItem\<close> accounts: the length of a \<^verbatim>\<open>Uint8Array\<close>, else the size of the
  \<^verbatim>\<open>Blob\<close> made of the value.
\<close>

fun payload_size :: "payload \<Rightarrow> nat" where
  "payload_size (PBytes bs) = length bs"
| "payload_size d = length (TextEncoder_encode (payload_text d))"

section \<open>The public operations\<close>

record StorageResult =
  success :: bool
  res_data :: "jsval option"
  res_error :: "error option"

definition succeed :: "jsval \<Rightarrow> StorageResult" where
  "succeed v = \<lparr> success = True, res_data = Some v, res_error = None \<rparr>"

definition fail :: "error \<Rightarrow> StorageResult" where
  "fail e = \<lparr> success = False, res_data = None, res_error = Some e \<rparr>"

record StorageStats =
  used :: int
  total :: int
  available :: int
  percentUsed :: real

record CompressionStats =
  stat_compressed :: bool
  stat_originalSize :: nat
  stat_compressedSize :: nat
  savingsPercent :: real

definition storeInCache :: "platform \<Rightarrow> string \<Rightarrow> entry \<Rightarrow> world \<Rightarrow> world \<times> (error + unit)" where
  "storeInCache P url d w =
     and_then (caches_open P (namespace w) w)
       (\<lambda>w1 u. (cache_put (namespace w1) url (json_image d) w1, Inr ()))"

text \<open>
  The \<^verbatim>\<open>try\<close> block of \<^verbatim>\<open>setItem\<close>: every \<^verbatim>\<open>throw\<close> and every rejected \<^verbatim>\<open>await\<close> is an
  \<open>Inl\<close>. The result object \<^verbatim>\<open>{ success: true, data }\<close> carries the value given, also when
  that is \<open>undefined\<close>.
\<close>

definition setItem_try ::
  "platform \<Rightarrow> bytes \<Rightarrow> world \<Rightarrow> string \<Rightarrow> jsval \<Rightarrow> Schema option \<Rightarrow> world \<times> (error + StorageResult)" where
  "setItem_try P iv w key v schema =
     (let w0 = await_initPromise P w
      in case (case schema of None \<Rightarrow> Inr True | Some sc \<Rightarrow> validateSchema P v sc) of
           Inl e \<Rightarrow> (w0, Inl e)
         | Inr ok \<Rightarrow>
             (let serialized = JSON_stringify P v;
                  comp = compress P w0 serialized;
                  sz = payload_size comp
              in if currentSize w0 + int sz > maxSize w0 then (w0, Inl StorageQuotaExceeded)
                 else
                   (case (case encryptionKey w0 of
                            None \<Rightarrow> Inr comp
                          | Some k \<Rightarrow>
                              if k = [] then Inr comp
                              else map_sum id PEncrypted (encrypt P w0 iv comp)) of
                      Inl e \<Rightarrow> (w0, Inl e)
                    | Inr d \<Rightarrow>
                        (let storageData =
                               \<lparr> entry_data = d,
                                 entry_metadata =
                                   Some \<lparr> compressed = (comp \<noteq> text_payload serialized),
                                          originalSize = payload_size (text_payload serialized),
                                          compressedSize = sz \<rparr> \<rparr>
                         in and_then
                              (if hasServiceWorker w0
                               then (post_store P key storageData sz w0, Inr ())
                               else storeInCache P (storage_url key) storageData w0)
                              (\<lambda>w1 u.
                                 (w1\<lparr> currentSize := currentSize w1 + int sz,
                                      cacheStore := AList.update key v (cacheStore w1) \<rparr>,
                                  Inr (succeed v)))))))"

text \<open>\<^verbatim>\<open>setItem\<close>: the \<^verbatim>\<open>catch\<close> returns \<^verbatim>\<open>{ success: false, error }\<close>.\<close>

definition setItem ::
  "platform \<Rightarrow> bytes \<Rightarrow> world \<Rightarrow> string \<Rightarrow> jsval \<Rightarrow> Schema option \<Rightarrow> world \<times> (error + StorageResult)" where
  "setItem P iv w key v schema =
     try_catch (setItem_try P iv w key v schema) (\<lambda>w1 e. (w1, Inr (fail e)))"

text \<open>
  The part of \<^verbatim>\<open>getItem\<close> after the backend read: the \<^verbatim>\<open>!storedData || !storedData.data\<close>
  test, decryption, decompression when the metadata says so, \<^verbatim>\<open>JSON.parse\<close>.
\<close>

definition decode :: "platform \<Rightarrow> world \<Rightarrow> entry option \<Rightarrow> error + jsval" where
  "decode P w storedData =
     (case storedData of
        None \<Rightarrow> Inl ItemNotFound
      | Some sd \<Rightarrow>
          if \<not> payload_truthy (entry_data sd) then Inl ItemNotFound
          else
            (case (case encryptionKey w of
                     None \<Rightarrow> Inr (entry_data sd)
                   | Some k \<Rightarrow> if k = [] then Inr (entry_data sd) else decrypt P w (entry_data sd)) of
               Inl e \<Rightarrow> Inl e
             | Inr decrypted \<Rightarrow>
                 (case (if (case entry_metadata sd of None \<Rightarrow> False | Some m \<Rightarrow> compressed m)
                        then decompress P w decrypted else Inr decrypted) of
                    Inl e \<Rightarrow> Inl e
                  | Inr text \<Rightarrow>
                      (case JSON_parse P (payload_text text) of
                         None \<Rightarrow> Inl SyntaxError
                       | Some parsed \<Rightarrow> Inr parsed))))"

text \<open>The backend read of \<^verbatim>\<open>getItem\<close> and \<^verbatim>\<open>getCompressionStats\<close>.\<close>

definition read_backend :: "platform \<Rightarrow> string \<Rightarrow> world \<Rightarrow> world \<times> (error + entry option)" where
  "read_backend P key w =
     (if hasServiceWorker w then
        (case post_retrieve key w of (w1, r) \<Rightarrow> (w1, Inr r))
      else
        and_then (caches_open P (namespace w) w)
          (\<lambda>w1 u. case cache_match (namespace w1) (storage_url key) w1 of
                     (w2, r) \<Rightarrow> (w2, Inr r)))"

text \<open>
  \<^verbatim>\<open>getItem\<close> after a miss of the local read cache. The two \<open>Item not found\<close> results are
  returned in the source and pass through the \<^verbatim>\<open>catch\<close> here: the result object is the
  same.
\<close>

definition fetch_item :: "platform \<Rightarrow> string \<Rightarrow> world \<Rightarrow> world \<times> (error + StorageResult)" where
  "fetch_item P key w =
     and_then (read_backend P key w)
       (\<lambda>w1 storedData.
          case decode P w1 storedData of
            Inl e \<Rightarrow> (w1, Inl e)
          | Inr parsed \<Rightarrow>
              (w1\<lparr>cacheStore := AList.update key parsed (cacheStore w1)\<rparr>, Inr (succeed parsed)))"

text \<open>
  \<^verbatim>\<open>getItem\<close>: \<^verbatim>\<open>if (cachedData)\<close> tests the cached value for truthiness; the \<^verbatim>\<open>catch\<close>
  returns \<^verbatim>\<open>{ success: false, error }\<close>.
\<close>

definition getItem :: "platform \<Rightarrow> world \<Rightarrow> string \<Rightarrow> world \<times> (error + StorageResult)" where
  "getItem P w key =
     try_catch
       (let w0 = await_initPromise P w
        in case map_of (cacheStore w0) key of
             None \<Rightarrow> fetch_item P key w0
           | Some cachedData \<Rightarrow>
               if truthy cachedData then (w0, Inr (succeed cachedData))
               else fetch_item P key w0)
       (\<lambda>w1 e. (w1, Inr (fail e)))"

text \<open>
  \<^verbatim>\<open>updateItem\<close>. The \<^verbatim>\<open>try\<close> block throws, and the \<^verbatim>\<open>catch\<close> returns the failure result
  (\<open>Inl\<close> of the inner sum), or it reaches \<^verbatim>\<open>return this.setItem(key, updatedData, schema)\<close>
  with the merged value (\<open>Inr\<close> of the inner sum): the promise of \<^verbatim>\<open>setItem\<close> is returned as
  it is, not awaited, so the \<^verbatim>\<open>catch\<close> does not cover it. The test
  \<^verbatim>\<open>!current.success || !current.data\<close> is written as nested conditionals; a result
  without \<open>data\<close> reads as \<open>undefined\<close>.
\<close>

definition updateItem ::
  "platform \<Rightarrow> bytes \<Rightarrow> world \<Rightarrow> string \<Rightarrow> jsval \<Rightarrow> Schema option \<Rightarrow> world \<times> (error + StorageResult)" where
  "updateItem P iv w key updates schema =
     (case try_catch
             (and_then (getItem P w key)
                (\<lambda>w1 current.
                   if \<not> success current then (w1, Inl (ItemWithKeyNotFound key))
                   else (case res_data current of
                           None \<Rightarrow> (w1, Inl (ItemWithKeyNotFound key))
                         | Some cur \<Rightarrow>
                             if \<not> truthy cur then (w1, Inl (ItemWithKeyNotFound key))
                             else (w1, Inr (Inr (spread_merge cur updates))))))
             (\<lambda>w1 e. (w1, Inr (Inl (fail e)))) of
        (w1, Inl e) \<Rightarrow> (w1, Inl e)
      | (w1, Inr (Inl failure)) \<Rightarrow> (w1, Inr failure)
      | (w1, Inr (Inr updatedData)) \<Rightarrow> setItem P iv w1 key updatedData schema)"

definition removeItem :: "platform \<Rightarrow> world \<Rightarrow> string \<Rightarrow> world \<times> (error + bool)" where
  "removeItem P w key =
     try_catch
       (and_then (caches_open P (namespace w) w)
          (\<lambda>w1 u.
             ((cache_delete (namespace w1) (storage_url key) w1)
                \<lparr>cacheStore := AList.delete key (cacheStore w1)\<rparr>,
              Inr True)))
       (\<lambda>w1 e. (w1, Inr False))"

definition clear :: "platform \<Rightarrow> world \<Rightarrow> world \<times> (error + bool)" where
  "clear P w =
     try_catch
       (let w1 = log_call (CachesDelete (namespace w)) w
        in if caches_reject P then (w1, Inl CacheRejected)
           else (w1\<lparr>caches := AList.delete (namespace w1) (caches w1), cacheStore := []\<rparr>,
                 Inr True))
       (\<lambda>w1 e. (w1, Inr False))"

text \<open>\<^verbatim>\<open>getStats\<close> has no \<^verbatim>\<open>try\<close>: what \<^verbatim>\<open>calculateCurrentSize\<close> throws, it throws.\<close>

definition getStats :: "platform \<Rightarrow> world \<Rightarrow> world \<times> (error + StorageStats)" where
  "getStats P w =
     and_then (calculateCurrentSize P w)
       (\<lambda>w1 n.
          (w1,
           Inr \<lparr> used = currentSize w1,
                 total = maxSize w1,
                 available = maxSize w1 - currentSize w1,
                 percentUsed = real_of_int (currentSize w1) / real_of_int (maxSize w1) * 100 \<rparr>))"

text \<open>The object \<^verbatim>\<open>getCompressionStats\<close> returns for an entry's metadata.\<close>

definition compression_stats :: "Metadata \<Rightarrow> CompressionStats" where
  "compression_stats m =
     \<lparr> stat_compressed = compressed m,
       stat_originalSize = originalSize m,
       stat_compressedSize = compressedSize m,
       savingsPercent =
         (real (originalSize m) - real (compressedSize m)) / real (originalSize m) * 100 \<rparr>"

definition getCompressionStats ::
  "platform \<Rightarrow> world \<Rightarrow> string \<Rightarrow> world \<times> (error + CompressionStats option)" where
  "getCompressionStats P w key =
     try_catch
       (and_then (read_backend P key w)
          (\<lambda>w1 storedData.
             case storedData of
               None \<Rightarrow> (w1, Inr None)
             | Some sd \<Rightarrow>
                 (case entry_metadata sd of
                    None \<Rightarrow> (w1, Inr None)
                  | Some m \<Rightarrow> (w1, Inr (Some (compression_stats m))))))
       (\<lambda>w1 e. (w1, Inr None))"

section \<open>The public boundary\<close>

text \<open>
  A call of one of the seven public operations, and how its promise settles: rejected
  with an error, thrown past the boundary (\<open>Inl\<close>), or fulfilled with what the operation
  returns (\<open>Inr\<close>): a \<^verbatim>\<open>StorageResult\<close>, a boolean, a \<^verbatim>\<open>StorageStats\<close>, or compression
  statistics or \<^verbatim>\<open>null\<close>.
\<close>

datatype operation =
    SetItem string jsval "Schema option"
  | GetItem string
  | UpdateItem string jsval "Schema option"
  | RemoveItem string
  | Clear
  | GetStats
  | GetCompressionStats string

datatype returned =
    Result StorageResult
  | Boolean bool
  | Stats StorageStats
  | StatsOrNull "CompressionStats option"

definition invoke :: "platform \<Rightarrow> bytes \<Rightarrow> world \<Rightarrow> operation \<Rightarrow> world \<times> (error + returned)" where
  "invoke P iv w op =
     (case op of
        SetItem key v schema \<Rightarrow> map_prod id (map_sum id Result) (setItem P iv w key v schema)
      | GetItem key \<Rightarrow> map_prod id (map_sum id Result) (getItem P w key)
      | UpdateItem key updates schema \<Rightarrow>
          map_prod id (map_sum id Result) (updateItem P iv w key updates schema)
      | RemoveItem key \<Rightarrow> map_prod id (map_sum id Boolean) (removeItem P w key)
      | Clear \<Rightarrow> map_prod id (map_sum id Boolean) (clear P w)
      | GetStats \<Rightarrow> map_prod id (map_sum id Stats) (getStats P w)
      | GetCompressionStats key \<Rightarrow>
          map_prod id (map_sum id StatsOrNull) (getCompressionStats P w key))"

text \<open>
  A structured result: an object that carries \<open>success\<close> and either \<open>data\<close> and no
  \<open>error\<close>, or an \<open>error\<close> and no \<open>data\<close>.
\<close>

definition structured :: "returned \<Rightarrow> bool" where
  "structured r =
     (case r of
        Result x \<Rightarrow>
          if success x then res_data x \<noteq> None \<and> res_error x = None
          else res_error x \<noteq> None \<and> res_data x = None
      | _ \<Rightarrow> False)"

section \<open>A reference platform\<close>

text \<open>
  An executable platform on which the operations can be run on concrete inputs: the JSON
  text of the data values (no white space, as \<^verbatim>\<open>JSON.stringify\<close> prints it) with its
  parser, the string-keyed members of the built-in prototypes, a gzip stand-in that
  frames the bytes with the gzip magic number, a cipher stand-in that accepts keys of 16,
  24 or 32 bytes and appends a 16-byte tag as AES-GCM does, and a
  two-characters-per-byte stand-in for base64.
\<close>

definition show_int :: "int \<Rightarrow> string" where
  "show_int i = (if i < 0 then CHR ''-'' # show_nat (nat (- i)) else show_nat (nat i))"

fun quote_chars :: "string \<Rightarrow> string" where
  "quote_chars [] = []"
| "quote_chars (c # cs) =
     (if c = CHR 0x22 \<or> c = CHR 0x5C then CHR 0x5C # c # quote_chars cs
      else c # quote_chars cs)"

definition quote :: "string \<Rightarrow> string" where
  "quote s = CHR 0x22 # quote_chars s @ [CHR 0x22]"

text \<open>
  \<^verbatim>\<open>JSON.stringify\<close>: \<open>undefined\<close> and a function have no JSON text. Inside an array they
  print as \<open>null\<close>, and a property that holds one of them is left out.
\<close>

fun serializable :: "jsval \<Rightarrow> bool" where
  "serializable Undefined = False"
| "serializable (Function f n) = False"
| "serializable v = True"

fun json_text :: "jsval \<Rightarrow> string"
  and json_elements :: "jsval list \<Rightarrow> string list"
  and json_members :: "(string \<times> jsval) list \<Rightarrow> string list" where
  "json_text Undefined = ''null''"
| "json_text Null = ''null''"
| "json_text (Bool b) = (if b then ''true'' else ''false'')"
| "json_text (Num n) = show_int n"
| "json_text (Str s) = quote s"
| "json_text (Arr xs) = ''['' @ join_commas (json_elements xs) @ '']''"
| "json_text (Obj fs) = ''{'' @ join_commas (json_members fs) @ ''}''"
| "json_text (Function f n) = ''null''"
| "json_elements [] = []"
| "json_elements (x # xs) = json_text x # json_elements xs"
| "json_members [] = []"
| "json_members (kv # fs) =
     (if serializable (snd kv) then [quote (fst kv) @ '':'' @ json_text (snd kv)] else [])
     @ json_members fs"

definition stringify :: "jsval \<Rightarrow> string option" where
  "stringify v = (if serializable v then Some (json_text v) else None)"

fun read_nat :: "nat \<Rightarrow> string \<Rightarrow> nat \<times> string" where
  "read_nat acc [] = (acc, [])"
| "read_nat acc (c # cs) =
     (if is_digit c then read_nat (10 * acc + (of_char c - 48)) cs else (acc, c # cs))"

fun read_string :: "string \<Rightarrow> (string \<times> string) option" where
  "read_string [] = None"
| "read_string [c] = (if c = CHR 0x22 then Some ([], []) else None)"
| "read_string (c # d # cs) =
     (if c = CHR 0x22 then Some ([], d # cs)
      else if c = CHR 0x5C then map_option (\<lambda>(s, r). (d # s, r)) (read_string cs)
      else map_option (\<lambda>(s, r). (c # s, r)) (read_string (d # cs)))"

text \<open>
  \<^verbatim>\<open>JSON.parse\<close>, with the nesting depth as fuel (the length of the text bounds it). The
  members of an object are defined one after the other on a new object.
\<close>

fun read_value :: "nat \<Rightarrow> string \<Rightarrow> (jsval \<times> string) option"
  and read_elements :: "nat \<Rightarrow> string \<Rightarrow> (jsval list \<times> string) option"
  and read_members :: "nat \<Rightarrow> string \<Rightarrow> ((string \<times> jsval) list \<times> string) option" where
  "read_value 0 s = None"
| "read_value (Suc n) s =
     (if take 4 s = ''null'' then Some (Null, drop 4 s)
      else if take 4 s = ''true'' then Some (Bool True, drop 4 s)
      else if take 5 s = ''false'' then Some (Bool False, drop 5 s)
      else if take 2 s = ''[]'' then Some (Arr [], drop 2 s)
      else if take 2 s = ''{}'' then Some (Obj [], drop 2 s)
      else if take 1 s = ''['' then map_option (\<lambda>(xs, r). (Arr xs, r)) (read_elements n (drop 1 s))
      else if take 1 s = ''{'' then map_option (\<lambda>(fs, r). (object_of fs, r)) (read_members n (drop 1 s))
      else if take 1 s = [CHR 0x22] then map_option (\<lambda>(t, r). (Str t, r)) (read_string (drop 1 s))
      else if take 1 s = ''-'' \<and> s \<noteq> ''-'' \<and> is_digit (s ! 1)
        then (case read_nat 0 (drop 1 s) of (k, r) \<Rightarrow> Some (Num (- int k), r))
      else if s \<noteq> [] \<and> is_digit (s ! 0)
        then (case read_nat 0 s of (k, r) \<Rightarrow> Some (Num (int k), r))
      else None)"
| "read_elements 0 s = None"
| "read_elements (Suc n) s =
     (case read_value n s of
        None \<Rightarrow> None
      | Some (v, r) \<Rightarrow>
          if take 1 r = '']'' then Some ([v], drop 1 r)
          else if take 1 r = '','' then map_option (\<lambda>(vs, r'). (v # vs, r')) (read_elements n (drop 1 r))
          else None)"
| "read_members 0 s = None"
| "read_members (Suc n) s =
     (if take 1 s \<noteq> [CHR 0x22] then None
      else (case read_string (drop 1 s) of
              None \<Rightarrow> None
            | Some (k, r) \<Rightarrow>
                if take 1 r \<noteq> '':'' then None
                else (case read_value n (drop 1 r) of
                        None \<Rightarrow> None
                      | Some (v, r') \<Rightarrow>
                          if take 1 r' = ''}'' then Some ([(k, v)], drop 1 r')
                          else if take 1 r' = '',''
                            then map_option (\<lambda>(fs, r''). ((k, v) # fs, r'')) (read_members n (drop 1 r'))
                          else None)))"

definition parse :: "string \<Rightarrow> jsval option" where
  "parse s = (case read_value (Suc (length s)) s of
                Some (v, []) \<Rightarrow> Some v
              | _ \<Rightarrow> None)"

text \<open>An entry as the value that \<^verbatim>\<open>JSON.stringify(storageData)\<close> prints.\<close>

fun payload_json :: "payload \<Rightarrow> jsval" where
  "payload_json PUndefined = Undefined"
| "payload_json (PString s) = Str s"
| "payload_json (PBytes bs) = Obj (zip (map show_nat [0..<length bs]) (map (\<lambda>b. Num (int b)) bs))"
| "payload_json (PEncrypted e) =
     Obj [(''data'', Arr (map (\<lambda>b. Num (int b)) (enc_data e))),
          (''iv'', Arr (map (\<lambda>b. Num (int b)) (enc_iv e))),
          (''wasCompressed'', Bool (wasCompressed e))]"
| "payload_json (PIndexed kvs) = Obj (map (\<lambda>(k, b). (k, Num (int b))) kvs)"

definition entry_json :: "entry \<Rightarrow> jsval" where
  "entry_json e =
     Obj ((''data'', payload_json (entry_data e)) #
          (case entry_metadata e of
             None \<Rightarrow> []
           | Some m \<Rightarrow>
               [(''metadata'',
                 Obj [(''compressed'', Bool (compressed m)),
                      (''originalSize'', Num (int (originalSize m))),
                      (''compressedSize'', Num (int (compressedSize m)))])]))"

text \<open>
  The built-in prototypes (ECMAScript 2023 with its Annex B): each method under its key,
  as the function of its \<open>name\<close> and \<open>length\<close>. \<open>__proto__\<close> reads the prototype itself;
  \<^verbatim>\<open>Array.prototype\<close> is an array and \<^verbatim>\<open>Function.prototype\<close> a function. The built-in
  constructors are met as the value of \<open>constructor\<close> only: their own members are not
  listed.
\<close>

definition methods :: "(string \<times> nat) list \<Rightarrow> (string \<times> jsval) list" where
  "methods ms = map (\<lambda>(name, len). (name, Function name len)) ms"

definition Object_prototype :: "(string \<times> jsval) list" where
  "Object_prototype =
     (''constructor'', Function ''Object'' 1) #
     methods [(''__defineGetter__'', 2), (''__defineSetter__'', 2), (''hasOwnProperty'', 1),
              (''__lookupGetter__'', 1), (''__lookupSetter__'', 1), (''isPrototypeOf'', 1),
              (''propertyIsEnumerable'', 1), (''toString'', 0), (''valueOf'', 0),
              (''toLocaleString'', 0)]"

definition Array_prototype :: "(string \<times> jsval) list" where
  "Array_prototype =
     (''constructor'', Function ''Array'' 1) #
     methods [(''at'', 1), (''concat'', 1), (''copyWithin'', 2), (''entries'', 0), (''every'', 1),
              (''fill'', 1), (''filter'', 1), (''find'', 1), (''findIndex'', 1), (''findLast'', 1),
              (''findLastIndex'', 1), (''flat'', 0), (''flatMap'', 1), (''forEach'', 1),
              (''includes'', 1), (''indexOf'', 1), (''join'', 1), (''keys'', 0),
              (''lastIndexOf'', 1), (''map'', 1), (''pop'', 0), (''push'', 1), (''reduce'', 1),
              (''reduceRight'', 1), (''reverse'', 0), (''shift'', 0), (''slice'', 2), (''some'', 1),
              (''sort'', 1), (''splice'', 2), (''toLocaleString'', 0), (''toReversed'', 0),
              (''toSorted'', 1), (''toSpliced'', 2), (''toString'', 0), (''unshift'', 1),
              (''values'', 0), (''with'', 2)]"

definition String_prototype :: "(string \<times> jsval) list" where
  "String_prototype =
     (''constructor'', Function ''String'' 1) #
     (''trimLeft'', Function ''trimStart'' 0) #
     (''trimRight'', Function ''trimEnd'' 0) #
     methods [(''anchor'', 1), (''at'', 1), (''big'', 0), (''blink'', 0), (''bold'', 0),
              (''charAt'', 1), (''charCodeAt'', 1), (''codePointAt'', 1), (''concat'', 1),
              (''endsWith'', 1), (''fixed'', 0), (''fontcolor'', 1), (''fontsize'', 1),
              (''includes'', 1), (''indexOf'', 1), (''italics'', 0), (''lastIndexOf'', 1),
              (''link'', 1), (''localeCompare'', 1), (''match'', 1), (''matchAll'', 1),
              (''normalize'', 0), (''padEnd'', 1), (''padStart'', 1), (''repeat'', 1),
              (''replace'', 2), (''replaceAll'', 2), (''search'', 1), (''slice'', 2),
              (''small'', 0), (''split'', 2), (''startsWith'', 1), (''strike'', 0), (''sub'', 0),
              (''substr'', 2), (''substring'', 2), (''sup'', 0), (''toLocaleLowerCase'', 0),
              (''toLocaleUpperCase'', 0), (''toLowerCase'', 0), (''toString'', 0),
              (''toUpperCase'', 0), (''trim'', 0), (''trimEnd'', 0), (''trimStart'', 0),
              (''valueOf'', 0)]"

definition Number_prototype :: "(string \<times> jsval) list" where
  "Number_prototype =
     (''constructor'', Function ''Number'' 1) #
     methods [(''toExponential'', 1), (''toFixed'', 1), (''toLocaleString'', 0),
              (''toPrecision'', 1), (''toString'', 1), (''valueOf'', 0)]"

definition Boolean_prototype :: "(string \<times> jsval) list" where
  "Boolean_prototype =
     (''constructor'', Function ''Boolean'' 1) #
     methods [(''toString'', 0), (''valueOf'', 0)]"

definition Function_prototype :: "(string \<times> jsval) list" where
  "Function_prototype =
     (''constructor'', Function ''Function'' 1) #
     methods [(''apply'', 2), (''bind'', 1), (''call'', 1), (''toString'', 0)]"

text \<open>
  What a value finds beyond its own enumerable properties and, for strings and arrays,
  \<open>length\<close> and the indices: the members of its prototype, then those of
  \<^verbatim>\<open>Object.prototype\<close>. A function has its \<open>name\<close> and \<open>length\<close>; its \<open>caller\<close> and
  \<open>arguments\<close> are the accessors of \<^verbatim>\<open>Function.prototype\<close>, which throw.
\<close>

fun prototype_chain :: "jsval \<Rightarrow> (string \<times> jsval) list" where
  "prototype_chain (Str s) = (''__proto__'', Obj []) # String_prototype @ Object_prototype"
| "prototype_chain (Arr xs) = (''__proto__'', Arr []) # Array_prototype @ Object_prototype"
| "prototype_chain (Num n) = (''__proto__'', Obj []) # Number_prototype @ Object_prototype"
| "prototype_chain (Bool b) = (''__proto__'', Obj []) # Boolean_prototype @ Object_prototype"
| "prototype_chain (Function f n) =
     (''name'', Str f) # (''length'', Num (int n)) # (''__proto__'', Function [] 0)
       # Function_prototype @ Object_prototype"
| "prototype_chain v = (''__proto__'', Obj []) # Object_prototype"

fun builtin_inherited :: "jsval \<Rightarrow> string \<Rightarrow> error + jsval option" where
  "builtin_inherited Undefined key = Inl TypeError"
| "builtin_inherited Null key = Inl TypeError"
| "builtin_inherited (Function f n) key =
     (if key = ''caller'' \<or> key = ''arguments'' then Inl TypeError
      else Inr (map_of (prototype_chain (Function f n)) key))"
| "builtin_inherited v key = Inr (map_of (prototype_chain v) key)"

definition gzip_frame :: "bytes \<Rightarrow> bytes" where
  "gzip_frame bs = 31 # 139 # bs"

definition gzip_unframe :: "bytes \<Rightarrow> bytes option" where
  "gzip_unframe bs = (if take 2 bs = [31, 139] then Some (drop 2 bs) else None)"

definition seal :: "string \<Rightarrow> bytes \<Rightarrow> bytes \<Rightarrow> bytes option" where
  "seal k iv pt =
     (if length k \<in> {16, 24, 32} then Some (map (\<lambda>b. (b + 1) mod 256) pt @ replicate 16 0)
      else None)"

definition unseal :: "string \<Rightarrow> bytes \<Rightarrow> bytes \<Rightarrow> bytes option" where
  "unseal k iv ct =
     (if length k \<in> {16, 24, 32} \<and> 16 \<le> length ct
      then Some (map (\<lambda>b. (b + 255) mod 256) (take (length ct - 16) ct))
      else None)"

definition to_pairs :: "bytes \<Rightarrow> string" where
  "to_pairs bs = concat (map (\<lambda>b. [char_of (65 + b div 16), char_of (65 + b mod 16)]) bs)"

fun of_pairs :: "string \<Rightarrow> bytes option" where
  "of_pairs [] = Some []"
| "of_pairs [c] = None"
| "of_pairs (c # d # cs) =
     map_option (\<lambda>bs. ((of_char c - 65) * 16 + (of_char d - 65)) # bs) (of_pairs cs)"

text \<open>
  The reference platform, by backend: \<open>browser sw\<close> has a service worker whose
  registration resolves when \<open>sw\<close> is true, and no service worker otherwise. It has
  \<^verbatim>\<open>crypto.subtle\<close> and the compression streams, and its Cache API does not reject.
\<close>

definition browser :: "bool \<Rightarrow> platform" where
  "browser sw =
     \<lparr> JSON_stringify = stringify,
       JSON_parse = parse,
       inherited = builtin_inherited,
       serviceWorker_in_navigator = sw,
       register_resolves = True,
       subtle_in_crypto = True,
       subtle_importKey = (\<lambda>k. length k \<in> {16, 24, 32}),
       CompressionStream_in_window = True,
       DecompressionStream_in_window = True,
       pako_in_window = False,
       stream_gzip = (\<lambda>bs. Some (gzip_frame bs)),
       stream_gunzip = gzip_unframe,
       pako_gzip = (\<lambda>s l. None),
       pako_ungzip = (\<lambda>d. None),
       subtle_encrypt = seal,
       subtle_decrypt = unseal,
       btoa = to_pairs,
       atob = of_pairs,
       caches_reject = False,
       body_size = (\<lambda>e. length (json_text (entry_json e))) \<rparr>"

section \<open>Concrete inputs\<close>

definition default_options :: StorageOptions where
  "default_options =
     \<lparr> opt_maxSize = None, opt_encryptionKey = None, opt_namespace = None,
       opt_cacheDuration = None, opt_compression = None \<rparr>"

definition tags_schema :: Schema where
  "tags_schema =
     [(''name'', \<lparr> def_type = TString, def_required = True, def_validate = None \<rparr>),
      (''tags'', \<lparr> def_type = TArray, def_required = False, def_validate = None \<rparr>)]"

definition tagged_value :: jsval where
  "tagged_value = Obj [(''name'', Str ''John''), (''tags'', Arr [Str ''a'', Str ''b''])]"

definition user_schema :: Schema where
  "user_schema =
     [(''id'', \<lparr> def_type = TString, def_required = True, def_validate = None \<rparr>),
      (''name'', \<lparr> def_type = TString, def_required = False, def_validate = None \<rparr>),
      (''age'', \<lparr> def_type = TNumber, def_required = False,
                  def_validate = Some (\<lambda>x. x \<noteq> Num 0) \<rparr>)]"

definition bad_user :: jsval where
  "bad_user = Obj [(''name'', Num 5), (''age'', Num 0)]"

definition bad_user_extra :: jsval where
  "bad_user_extra = Obj [(''note'', Arr []), (''name'', Num 5), (''age'', Num 0)]"

definition direct_start :: world where
  "direct_start = constructor (browser False) default_options [] []"

definition ten_options :: StorageOptions where
  "ten_options = default_options\<lparr>opt_maxSize := Some 10\<rparr>"

definition x1 :: jsval where
  "x1 = Obj [(''x'', Num 1)]"

definition after_first_write :: "bool \<Rightarrow> world" where
  "after_first_write sw =
     fst (setItem (browser sw) [] (constructor (browser sw) ten_options [] []) ''a'' x1 None)"

definition scenario_options :: StorageOptions where
  "scenario_options =
     \<lparr> opt_maxSize = Some 1024, opt_encryptionKey = None, opt_namespace = None,
       opt_cacheDuration = None,
       opt_compression = Some \<lparr> opt_enabled = False, opt_level = None, opt_threshold = None \<rparr> \<rparr>"

definition scenario_set :: "bool \<Rightarrow> world \<times> (error + StorageResult)" where
  "scenario_set sw =
     setItem (browser sw) [] (constructor (browser sw) scenario_options [] []) ''a'' x1 None"

definition scenario_get :: "bool \<Rightarrow> world \<times> (error + StorageResult)" where
  "scenario_get sw = getItem (browser sw) (fst (scenario_set sw)) ''a''"

definition scenario_remove :: "bool \<Rightarrow> world \<times> (error + bool)" where
  "scenario_remove sw = removeItem (browser sw) (fst (scenario_get sw)) ''a''"

definition scenario_get_again :: "bool \<Rightarrow> world \<times> (error + StorageResult)" where
  "scenario_get_again sw = getItem (browser sw) (fst (scenario_remove sw)) ''a''"

definition zero_written :: "bool \<Rightarrow> world \<times> (error + StorageResult)" where
  "zero_written sw =
     setItem (browser sw) [] (constructor (browser sw) default_options [] []) ''k'' (Num 0) None"

definition john :: jsval where
  "john = Obj [(''name'', Str ''John''), (''age'', Num 30)]"

definition age31 :: jsval where
  "age31 = Obj [(''age'', Num 31)]"

definition john31 :: jsval where
  "john31 = Obj [(''name'', Str ''John''), (''age'', Num 31)]"

definition john_written :: "bool \<Rightarrow> world" where
  "john_written sw =
     fst (setItem (browser sw) [] (constructor (browser sw) default_options [] []) ''k'' john None)"

definition secret_options :: StorageOptions where
  "secret_options = default_options\<lparr>opt_encryptionKey := Some ''0123456789abcdef''\<rparr>"

definition secret_written :: "bool \<Rightarrow> world \<times> (error + StorageResult)" where
  "secret_written sw =
     setItem (browser sw) [1, 2, 3, 4, 5, 6, 7, 8, 9, 10, 11, 12]
       (constructor (browser sw) secret_options [] []) ''a'' x1 None"

definition gzip_options :: StorageOptions where
  "gzip_options =
     default_options
       \<lparr>opt_compression := Some \<lparr> opt_enabled = True, opt_level = None, opt_threshold = Some 1 \<rparr>\<rparr>"

definition gzip_written :: "bool \<Rightarrow> world \<times> (error + StorageResult)" where
  "gzip_written sw =
     setItem (browser sw) [] (constructor (browser sw) gzip_options [] []) ''a'' x1 None"

definition stale_entry :: entry where
  "stale_entry =
     \<lparr> entry_data = PString ''1'',
       entry_metadata = Some \<lparr> compressed = False, originalSize = 1, compressedSize = 1 \<rparr> \<rparr>"

definition fresh_facade :: "bool \<Rightarrow> world" where
  "fresh_facade sw =
     constructor (browser sw) default_options []
       [(''application'', [(''/cache-local-storage/storage/a'', stale_entry)])]"

definition reloaded :: "platform \<Rightarrow> StorageOptions \<Rightarrow> world \<Rightarrow> world" where
  "reloaded P options w = constructor P options (storage w) (caches w)"

definition sealed_gzip_options :: StorageOptions where
  "sealed_gzip_options = gzip_options\<lparr>opt_encryptionKey := Some ''0123456789abcdef''\<rparr>"

definition sealed_gzip_written :: "bool \<Rightarrow> world \<times> (error + StorageResult)" where
  "sealed_gzip_written sw =
     setItem (browser sw) [1, 2, 3, 4, 5, 6, 7, 8, 9, 10, 11, 12]
       (constructor (browser sw) sealed_gzip_options [] []) ''a'' x1 None"

definition gzip_zero_written :: "bool \<Rightarrow> world \<times> (error + StorageResult)" where
  "gzip_zero_written sw =
     setItem (browser sw) [] (constructor (browser sw) gzip_options [] []) ''k'' (Num 0) None"

definition undefined_written :: "bool \<Rightarrow> world \<times> (error + StorageResult)" where
  "undefined_written sw =
     setItem (browser sw) [] (constructor (browser sw) default_options [] []) ''u'' Undefined None"

section \<open>Properties of the validator\<close>

lemma validateSchema_append:
  "validateSchema P v (xs @ ys) =
     (case validateSchema P v xs of Inl e \<Rightarrow> Inl e | Inr ok \<Rightarrow> validateSchema P v ys)"
  by (induction xs) (auto split: sum.splits option.splits)

lemma validateSchema_required_absent:
  "(key, d) \<in> set schema \<Longrightarrow> def_required d \<Longrightarrow> \<forall>x. get_prop P v key \<noteq> Inr (Some x) \<Longrightarrow>
   \<exists>e. validateSchema P v schema = Inl e"
  by (induction schema) (auto split: sum.splits option.splits)

lemma validateSchema_type_mismatch:
  "(key, d) \<in> set schema \<Longrightarrow> get_prop P v key = Inr (Some x) \<Longrightarrow>
   typeof x \<noteq> SchemaType_text (def_type d) \<Longrightarrow> \<exists>e. validateSchema P v schema = Inl e"
  by (induction schema) (auto split: sum.splits option.splits)

lemma validateSchema_predicate_false:
  "(key, d) \<in> set schema \<Longrightarrow> get_prop P v key = Inr (Some x) \<Longrightarrow>
   def_validate d = Some p \<Longrightarrow> \<not> p x \<Longrightarrow> \<exists>e. validateSchema P v schema = Inl e"
  by (induction schema) (auto split: sum.splits option.splits)

lemma validateSchema_cong_fields:
  "\<forall>key \<in> fst ` set schema. get_prop P v key = get_prop P v' key \<Longrightarrow>
   validateSchema P v schema = validateSchema P v' schema"
  by (induction schema) (auto split: sum.splits option.splits)

text \<open>
  A field is read as \<^verbatim>\<open>data[key]\<close> reads it, through the prototype chain: on the reference
  platform the empty object has a \<open>toString\<close>, a function, and a \<open>__proto__\<close>, an object. A
  schema field of such a name is therefore never missing: where \<open>toString\<close> is declared a
  required string, validation fails with the type mismatch.
\<close>

lemma inherited_fields_are_read:
  "get_prop (browser False) (Obj []) ''toString'' = Inr (Some (Function ''toString'' 0))
   \<and> get_prop (browser False) (Obj []) ''__proto__'' = Inr (Some (Obj []))
   \<and> get_prop (browser False) (Arr []) ''length'' = Inr (Some (Num 0))
   \<and> get_prop (browser False) (Obj [(''id'', Undefined)]) ''id'' = Inr None
   \<and> get_prop (browser False) Null ''id'' = Inl TypeError
   \<and> validateSchema (browser False) (Obj [])
        [(''toString'', \<lparr> def_type = TString, def_required = True, def_validate = None \<rparr>)]
      = Inl (InvalidType ''toString'' ''string'' ''function'')"
  by code_simp

lemma setItem_validation_fails:
  "validateSchema P v sc = Inl e \<Longrightarrow>
   setItem P iv w key v (Some sc) = (await_initPromise P w, Inr (fail e))"
  by (simp add: setItem_def setItem_try_def try_catch_def Let_def)

lemma await_initPromise_Resolved: "initPromise w = Resolved \<Longrightarrow> await_initPromise P w = w"
  by (simp add: await_initPromise_def)

section \<open>The schema type \<open>array\<close>\<close>

text \<open>
  Claim C10. \<^verbatim>\<open>validateSchema\<close> compares the declared type with \<^verbatim>\<open>typeof\<close> of the field, and
  \<^verbatim>\<open>typeof\<close> of an array is \<open>object\<close>. So whenever a schema declares a field of type
  \<open>array\<close> and the value holds an array there, validation fails, and \<^verbatim>\<open>setItem\<close> with that
  schema returns the failure without going further than the initialization; when the
  entries before that field pass, the failure is the type mismatch
  \<open>expected array, got object\<close> on that field.
\<close>

theorem array_type_rejects_arrays:
  assumes "schema = pre @ (key, d) # rest"
    and "def_type d = TArray"
    and "get_prop P v key = Inr (Some (Arr xs))"
  shows "\<exists>e. validateSchema P v schema = Inl e
             \<and> setItem P iv w k v (Some schema) = (await_initPromise P w, Inr (fail e))
             \<and> (validateSchema P v pre = Inr True \<longrightarrow> e = InvalidType key ''array'' ''object'')"
proof -
  have "(key, d) \<in> set schema"
    using assms(1) by simp
  moreover have "typeof (Arr xs) \<noteq> SchemaType_text (def_type d)"
    using assms(2) by simp
  ultimately obtain e where e: "validateSchema P v schema = Inl e"
    using validateSchema_type_mismatch assms(3) by blast
  have "validateSchema P v pre = Inr True \<longrightarrow> e = InvalidType key ''array'' ''object''"
    using e assms by (auto simp: validateSchema_append)
  with e setItem_validation_fails [OF e] show ?thesis
    by blast
qed

theorem array_type_rejects_arrays_witness:
  "tags_schema = [(''name'', \<lparr> def_type = TString, def_required = True, def_validate = None \<rparr>)]
       @ (''tags'', \<lparr> def_type = TArray, def_required = False, def_validate = None \<rparr>) # []
   \<and> get_prop (browser False) tagged_value ''tags'' = Inr (Some (Arr [Str ''a'', Str ''b'']))
   \<and> validateSchema (browser False) tagged_value tags_schema
        = Inl (InvalidType ''tags'' ''array'' ''object'')
   \<and> setItem (browser False) [] (constructor (browser False) default_options [] []) ''k''
         tagged_value (Some tags_schema)
       = (await_initPromise (browser False) (constructor (browser False) default_options [] []),
          Inr (fail (InvalidType ''tags'' ''array'' ''object'')))"
  using array_type_rejects_arrays
    [where schema = tags_schema
       and pre = "[(''name'', \<lparr> def_type = TString, def_required = True, def_validate = None \<rparr>)]"
       and key = "''tags''"
       and d = "\<lparr> def_type = TArray, def_required = False, def_validate = None \<rparr>"
       and rest = "[]" and v = tagged_value and xs = "[Str ''a'', Str ''b'']"
       and P = "browser False" and iv = "[]"
       and w = "constructor (browser False) default_options [] []" and k = "''k''"]
  by (simp add: tags_schema_def tagged_value_def)

section \<open>The schema gate\<close>

lemma initPromise_await [simp]: "initPromise (await_initPromise P w) = Resolved"
  by (cases "initPromise w") (simp_all add: await_initPromise_def)

text \<open>
  Claim C5. For every value and schema: validation fails when a field of the schema is
  required and absent from the value (reading it gives \<open>undefined\<close>, or throws as on
  \<open>null\<close>); it fails when a field that is present has a
  \<^verbatim>\<open>typeof\<close> other than the declared type, or a declared predicate that is false on it;
  the entries after the first failure are not looked at; \<^verbatim>\<open>setItem\<close> then returns the
  failure in the state the initialization left, with no backend call and no change (on
  an initialized facade the state is the one it was called in); and two values that
  have the same fields of the schema validate alike, whatever else they hold.
\<close>

theorem schema_gate:
  "((k1, d1) \<in> set schema \<longrightarrow> def_required d1 \<longrightarrow> (\<forall>x. get_prop P v k1 \<noteq> Inr (Some x)) \<longrightarrow>
      (\<exists>e. validateSchema P v schema = Inl e))
   \<and> ((k2, d2) \<in> set schema \<longrightarrow> get_prop P v k2 = Inr (Some x2) \<longrightarrow>
      typeof x2 \<noteq> SchemaType_text (def_type d2) \<longrightarrow> (\<exists>e. validateSchema P v schema = Inl e))
   \<and> ((k3, d3) \<in> set schema \<longrightarrow> get_prop P v k3 = Inr (Some x3) \<longrightarrow>
      def_validate d3 = Some p \<longrightarrow> \<not> p x3 \<longrightarrow> (\<exists>e. validateSchema P v schema = Inl e))
   \<and> (validateSchema P v schema = Inl err \<longrightarrow>
      validateSchema P v (schema @ later) = Inl err
      \<and> setItem P iv w key v (Some schema) = (await_initPromise P w, Inr (fail err))
      \<and> (initPromise w = Resolved \<longrightarrow> fst (setItem P iv w key v (Some schema)) = w))
   \<and> ((\<forall>f \<in> fst ` set schema. get_prop P v' f = get_prop P v f) \<longrightarrow>
      validateSchema P v' schema = validateSchema P v schema)"
proof (intro conjI impI)
  assume "(k1, d1) \<in> set schema" "def_required d1" "\<forall>x. get_prop P v k1 \<noteq> Inr (Some x)"
  then show "\<exists>e. validateSchema P v schema = Inl e"
    by (rule validateSchema_required_absent)
next
  assume "(k2, d2) \<in> set schema" "get_prop P v k2 = Inr (Some x2)"
    "typeof x2 \<noteq> SchemaType_text (def_type d2)"
  then show "\<exists>e. validateSchema P v schema = Inl e"
    by (rule validateSchema_type_mismatch)
next
  assume "(k3, d3) \<in> set schema" "get_prop P v k3 = Inr (Some x3)" "def_validate d3 = Some p" "\<not> p x3"
  then show "\<exists>e. validateSchema P v schema = Inl e"
    by (rule validateSchema_predicate_false)
next
  assume "validateSchema P v schema = Inl err"
  then show "validateSchema P v (schema @ later) = Inl err"
    by (simp add: validateSchema_append)
next
  assume "validateSchema P v schema = Inl err"
  then show "setItem P iv w key v (Some schema) = (await_initPromise P w, Inr (fail err))"
    by (rule setItem_validation_fails)
next
  assume "validateSchema P v schema = Inl err" "initPromise w = Resolved"
  then show "fst (setItem P iv w key v (Some schema)) = w"
    by (simp add: setItem_validation_fails await_initPromise_Resolved)
next
  assume "\<forall>f \<in> fst ` set schema. get_prop P v' f = get_prop P v f"
  then show "validateSchema P v' schema = validateSchema P v schema"
    by (rule validateSchema_cong_fields)
qed

theorem schema_gate_witness:
  "(''id'', \<lparr> def_type = TString, def_required = True, def_validate = None \<rparr>) \<in> set user_schema
   \<and> get_prop (browser False) bad_user ''id'' = Inr None
   \<and> (''name'', \<lparr> def_type = TString, def_required = False, def_validate = None \<rparr>) \<in> set user_schema
   \<and> get_prop (browser False) bad_user ''name'' = Inr (Some (Num 5))
   \<and> typeof (Num 5) \<noteq> ''string''
   \<and> (''age'', \<lparr> def_type = TNumber, def_required = False,
                  def_validate = Some (\<lambda>x. x \<noteq> Num 0) \<rparr>) \<in> set user_schema
   \<and> get_prop (browser False) bad_user ''age'' = Inr (Some (Num 0))
   \<and> validateSchema (browser False) bad_user user_schema = Inl (RequiredFieldMissing ''id'')
   \<and> validateSchema (browser False) bad_user (user_schema @ tags_schema)
        = Inl (RequiredFieldMissing ''id'')
   \<and> initPromise (await_initPromise (browser False) direct_start) = Resolved
   \<and> setItem (browser False) [] (await_initPromise (browser False) direct_start) ''u''
        bad_user (Some user_schema)
      = (await_initPromise (browser False) direct_start, Inr (fail (RequiredFieldMissing ''id'')))
   \<and> fst ` set user_schema = {''id'', ''name'', ''age''}
   \<and> get_prop (browser False) bad_user_extra ''id'' = get_prop (browser False) bad_user ''id''
   \<and> get_prop (browser False) bad_user_extra ''name'' = get_prop (browser False) bad_user ''name''
   \<and> get_prop (browser False) bad_user_extra ''age'' = get_prop (browser False) bad_user ''age''
   \<and> validateSchema (browser False) bad_user_extra user_schema
        = validateSchema (browser False) bad_user user_schema"
proof -
  have i: "get_prop (browser False) bad_user ''id'' = Inr None"
    and n: "get_prop (browser False) bad_user ''name'' = Inr (Some (Num 5))"
    and a: "get_prop (browser False) bad_user ''age'' = Inr (Some (Num 0))"
    and i': "get_prop (browser False) bad_user_extra ''id'' = Inr None"
    and n': "get_prop (browser False) bad_user_extra ''name'' = Inr (Some (Num 5))"
    and a': "get_prop (browser False) bad_user_extra ''age'' = Inr (Some (Num 0))"
    and f: "validateSchema (browser False) bad_user user_schema = Inl (RequiredFieldMissing ''id'')"
    by code_simp+
  show ?thesis
    using schema_gate
      [where ?k1.0 = "''id''"
         and ?d1.0 = "\<lparr> def_type = TString, def_required = True, def_validate = None \<rparr>"
         and schema = user_schema and P = "browser False" and v = bad_user
         and ?k2.0 = "''name''"
         and ?d2.0 = "\<lparr> def_type = TString, def_required = False, def_validate = None \<rparr>"
         and ?x2.0 = "Num 5"
         and ?k3.0 = "''age''"
         and ?d3.0 = "\<lparr> def_type = TNumber, def_required = False,
                        def_validate = Some (\<lambda>x. x \<noteq> Num 0) \<rparr>"
         and ?x3.0 = "Num 0" and p = "\<lambda>x. x \<noteq> Num 0"
         and err = "RequiredFieldMissing ''id''" and later = tags_schema and iv = "[]"
         and w = "await_initPromise (browser False) direct_start" and key = "''u''"
         and v' = bad_user_extra]
      i n a i' n' a' f
    by (simp add: user_schema_def await_initPromise_Resolved)
qed

section \<open>Quota admission\<close>

lemma fail_inject [simp]: "fail e = fail e' \<longleftrightarrow> e = e'"
  by (simp add: fail_def)

lemma succeed_inject [simp]: "succeed v = succeed v' \<longleftrightarrow> v = v'"
  by (simp add: succeed_def)

lemma succeed_not_fail [simp]: "succeed v \<noteq> fail e" "fail e \<noteq> succeed v"
  by (simp_all add: succeed_def fail_def)

lemma success_simps [simp]: "success (succeed v)" "\<not> success (fail e)"
  "res_data (succeed v) = Some v" "res_data (fail e) = None"
  "res_error (succeed v) = None" "res_error (fail e) = Some e"
  by (simp_all add: succeed_def fail_def)

text \<open>
  Claim C2. Take a write that gets to the size computation (it has no schema, or its
  value passes the schema), let \<open>S\<close> be the accounted size once the initialization is
  awaited and \<open>n\<close> the size of the new entry, the byte length of what the compression
  step returns. Then \<^verbatim>\<open>setItem\<close> fails with \<open>Storage quota exceeded\<close> exactly when
  \<open>S + n > maxSize\<close>, and the rejected write leaves the whole state (backend, local read
  cache, accounted size, log of backend calls) as the initialization left it: on an
  initialized facade, as it was.
\<close>

theorem quota_admission:
  fixes P iv w key v schema
  defines "w0 \<equiv> await_initPromise P w"
  defines "n \<equiv> payload_size (compress P w0 (JSON_stringify P v))"
  assumes "case schema of None \<Rightarrow> True | Some sc \<Rightarrow> validateSchema P v sc = Inr True"
  shows "(snd (setItem P iv w key v schema) = Inr (fail StorageQuotaExceeded)
            \<longleftrightarrow> currentSize w0 + int n > maxSize w0)
         \<and> (currentSize w0 + int n > maxSize w0 \<longrightarrow> fst (setItem P iv w key v schema) = w0)
         \<and> (initPromise w = Resolved \<longrightarrow> w0 = w)"
  using assms(3) unfolding w0_def n_def
  by (auto simp: setItem_def setItem_try_def try_catch_def and_then_def Let_def encrypt_def
        storeInCache_def caches_open_def caches_opened_def await_initPromise_Resolved
      split: option.splits sum.splits prod.splits if_splits)

theorem quota_admission_witness:
  "(case None :: Schema option of
      None \<Rightarrow> True
    | Some sc \<Rightarrow> validateSchema (browser False) x1 sc = Inr True)
   \<and> initPromise (after_first_write False) = Resolved
   \<and> currentSize (after_first_write False) = 7
   \<and> payload_size (compress (browser False) (after_first_write False)
         (JSON_stringify (browser False) x1)) = 7
   \<and> maxSize (after_first_write False) = 10
   \<and> setItem (browser False) [] (after_first_write False) ''b'' x1 None
        = (after_first_write False, Inr (fail StorageQuotaExceeded))"
proof -
  let ?w = "after_first_write False"
  have r: "initPromise ?w = Resolved" and c: "currentSize ?w = 7" and m: "maxSize ?w = 10"
    by code_simp+
  have n: "payload_size (compress (browser False) ?w (JSON_stringify (browser False) x1)) = 7"
    by code_simp
  have "snd (setItem (browser False) [] ?w ''b'' x1 None) = Inr (fail StorageQuotaExceeded)
        \<and> fst (setItem (browser False) [] ?w ''b'' x1 None) = ?w"
    using quota_admission [where schema = None and v = x1 and P = "browser False" and iv = "[]"
        and w = ?w and key = "''b''"]
    by (simp add: await_initPromise_Resolved [OF r] c m n)
  then have "setItem (browser False) [] ?w ''b'' x1 None = (?w, Inr (fail StorageQuotaExceeded))"
    by (simp add: prod_eq_iff)
  with r c m n show ?thesis
    by simp
qed

section \<open>The lifecycle of one item\<close>

text \<open>
  The scenario of claim C3 (\<open>maxSize = 1024\<close>, compression disabled, \<open>setItem("a", {x:1})\<close>,
  \<open>getItem("a")\<close>, \<open>removeItem("a")\<close>, \<open>getItem("a")\<close>) on the direct backend: the last read
  fails with \<open>Item not found\<close>.
\<close>

lemma lifecycle_direct:
  "snd (scenario_set False) = Inr (succeed x1)
   \<and> snd (scenario_get False) = Inr (succeed x1)
   \<and> snd (scenario_remove False) = Inr True
   \<and> snd (scenario_get_again False) = Inr (fail ItemNotFound)"
  by code_simp

text \<open>
  Claim C3, on the worker-backed backend. \<^verbatim>\<open>removeItem\<close> deletes from the persistent cache
  and from the local read cache, and sends the worker nothing: the worker's map keeps the
  entry (its \<open>delete\<close> handler is never called), and the read after the removal, which
  asks the worker, succeeds with \<open>{x:1}\<close> again.
\<close>

theorem lifecycle_worker_backed:
  "snd (scenario_set True) = Inr (succeed x1)
   \<and> snd (scenario_get True) = Inr (succeed x1)
   \<and> snd (scenario_remove True) = Inr True
   \<and> on_retrieve ''a'' (fst (scenario_remove True)) = on_retrieve ''a'' (fst (scenario_set True))
   \<and> snd (scenario_get_again True) = Inr (succeed x1)"
  by code_simp

section \<open>The local read cache\<close>

lemma setItem_succeeds:
  assumes "snd (setItem P iv w key v schema) = Inr (succeed v')"
  shows "v' = v \<and> map_of (cacheStore (fst (setItem P iv w key v schema))) key = Some v
         \<and> initPromise (fst (setItem P iv w key v schema)) = Resolved"
  using assms
  by (auto simp: setItem_def setItem_try_def try_catch_def and_then_def Let_def storeInCache_def
        caches_open_def caches_opened_def cache_put_def log_call_def
        post_store_def on_store_def persistToCache_def AList.update_conv'
      split: option.splits sum.splits prod.splits if_splits)

text \<open>
  After a successful \<^verbatim>\<open>setItem(k, v)\<close> of a truthy \<open>v\<close>, \<^verbatim>\<open>getItem(k)\<close> returns \<open>v\<close> and leaves
  the whole state, so also the log of backend calls, as it was.
\<close>

lemma read_cache_hit:
  assumes "snd (setItem P iv w key v schema) = Inr (succeed v')" and "truthy v"
  shows "getItem P (fst (setItem P iv w key v schema)) key
           = (fst (setItem P iv w key v schema), Inr (succeed v))"
  using setItem_succeeds [OF assms(1)] assms(2)
  by (simp add: getItem_def try_catch_def await_initPromise_Resolved)

text \<open>After a miss, a successful backend read puts the decoded value into the cache.\<close>

lemma fetch_item_fills_cache:
  assumes "fetch_item P key w = (w', Inr r)"
  shows "\<exists>x. r = succeed x \<and> map_of (cacheStore w') key = Some x"
  using assms
  by (auto simp: fetch_item_def and_then_def AList.update_conv' split: prod.splits sum.splits)

text \<open>
  Claim C6, at the value \<open>0\<close>. \<^verbatim>\<open>getItem\<close> tests the cached value with \<^verbatim>\<open>if (cachedData)\<close>,
  so a cached \<open>0\<close> (or \<open>false\<close>, \<open>""\<close>, \<open>null\<close>) counts as a miss: right after the successful
  \<^verbatim>\<open>setItem("k", 0)\<close>, with \<open>0\<close> in the local read cache, \<^verbatim>\<open>getItem("k")\<close> asks the backend: a
  \<open>retrieve\<close> message to the worker, or \<^verbatim>\<open>caches.open\<close> and \<^verbatim>\<open>cache.match\<close> on the direct
  backend.
\<close>

theorem falsy_value_read_reaches_backend:
  "snd (zero_written True) = Inr (succeed (Num 0))
   \<and> map_of (cacheStore (fst (zero_written True))) ''k'' = Some (Num 0)
   \<and> calls (fst (getItem (browser True) (fst (zero_written True)) ''k''))
        = calls (fst (zero_written True)) @ [PostMessage ''retrieve'']
   \<and> calls (fst (getItem (browser False) (fst (zero_written False)) ''k''))
        = calls (fst (zero_written False))
            @ [CachesOpen ''application'', CacheMatch ''/cache-local-storage/storage/k'']"
  by code_simp

section \<open>Updating an item\<close>

lemma getItem_result:
  "(\<exists>x. snd (getItem P w key) = Inr (succeed x)) \<or> (\<exists>e. snd (getItem P w key) = Inr (fail e))"
  by (auto simp: getItem_def fetch_item_def try_catch_def and_then_def Let_def
      split: option.splits prod.splits sum.splits)

lemma setItem_result:
  "snd (setItem P iv w key v schema) = Inr (succeed v)
   \<or> (\<exists>e. snd (setItem P iv w key v schema) = Inr (fail e))"
  by (auto simp: setItem_def setItem_try_def try_catch_def and_then_def Let_def
      split: option.splits prod.splits sum.splits)

text \<open>
  \<^verbatim>\<open>updateItem\<close> fails with \<open>Item with key k not found\<close> when \<^verbatim>\<open>getItem\<close> does not succeed;
  when \<^verbatim>\<open>getItem\<close> succeeds with a truthy value, it is \<^verbatim>\<open>setItem\<close>, with the same schema, of
  the merge of the partial value over the value read, in the state the read left.
\<close>

lemma updateItem_not_found:
  assumes "snd (getItem P w key) = Inr (fail e)"
  shows "updateItem P iv w key upd schema
           = (fst (getItem P w key), Inr (fail (ItemWithKeyNotFound key)))"
  using assms by (cases "getItem P w key") (simp add: updateItem_def try_catch_def and_then_def)

lemma updateItem_delegates:
  assumes "snd (getItem P w key) = Inr (succeed cur)" and "truthy cur"
  shows "updateItem P iv w key upd schema
           = setItem P iv (fst (getItem P w key)) key (spread_merge cur upd) schema"
  using assms by (cases "getItem P w key") (simp add: updateItem_def try_catch_def and_then_def)

lemma updateItem_falsy:
  assumes "snd (getItem P w key) = Inr (succeed cur)" and "\<not> truthy cur"
  shows "updateItem P iv w key upd schema
           = (fst (getItem P w key), Inr (fail (ItemWithKeyNotFound key)))"
  using assms by (cases "getItem P w key") (simp add: updateItem_def try_catch_def and_then_def)

lemma updateItem_cases:
  "(\<exists>cur. snd (getItem P w key) = Inr (succeed cur) \<and> truthy cur
          \<and> updateItem P iv w key upd schema
              = setItem P iv (fst (getItem P w key)) key (spread_merge cur upd) schema)
   \<or> updateItem P iv w key upd schema
        = (fst (getItem P w key), Inr (fail (ItemWithKeyNotFound key)))"
  using getItem_result [of P w key] updateItem_not_found [of P w key _ iv upd schema]
    updateItem_falsy [of P w key _ iv upd schema] updateItem_delegates [of P w key _ iv upd schema]
  by metis

text \<open>
  The merge \<^verbatim>\<open>{ ...cur, ...upd }\<close> of two objects with distinct keys: a key of \<open>upd\<close> has
  the field of \<open>upd\<close>, any other key the field of \<open>cur\<close>.
\<close>

lemma map_of_fold_update:
  "map_of (fold (\<lambda>(k, v) acc. AList.update k v acc) xs acc) = map_of acc ++ map_of (rev xs)"
proof (induction xs arbitrary: acc)
  case Nil
  then show ?case by simp
next
  case (Cons x xs)
  obtain k v where x: "x = (k, v)" by (cases x)
  have "map_of (fold (\<lambda>(k, v) acc. AList.update k v acc) (x # xs) acc)
          = map_of (AList.update k v acc) ++ map_of (rev xs)"
    using Cons.IH [of "AList.update k v acc"] x by simp
  also have "\<dots> = map_of acc ++ map_of (rev (x # xs))"
    by (simp add: x AList.update_conv')
  finally show ?case .
qed

lemma map_of_rev_distinct: "distinct (map fst xs) \<Longrightarrow> map_of (rev xs) = map_of xs"
proof (induction xs)
  case Nil
  then show ?case by simp
next
  case (Cons x xs)
  then have "fst x \<notin> dom (map_of xs)"
    by (simp add: dom_map_of_conv_image_fst)
  then have "map_of xs ++ [fst x \<mapsto> snd x] = (map_of xs)(fst x \<mapsto> snd x)"
    by simp
  moreover have "[fst x \<mapsto> snd x] ++ map_of xs = (map_of xs)(fst x \<mapsto> snd x)"
    using \<open>fst x \<notin> dom (map_of xs)\<close>
    by (auto simp: map_add_def fun_eq_iff split: option.splits)
  ultimately show ?case
    using Cons by (cases x) simp
qed

lemma distinct_fold_update:
  "distinct (map fst acc) \<Longrightarrow> distinct (map fst (fold (\<lambda>(k, v) acc. AList.update k v acc) xs acc))"
  by (induction xs arbitrary: acc) (auto simp: distinct_update)

lemma map_of_property_order:
  assumes "distinct (map fst ps)"
  shows "map_of (property_order ps) = map_of ps"
proof -
  have d: "distinct (map fst (property_order ps))"
    using assms
    by (auto simp: property_order_def distinct_map_filter inj_on_def
          distinct_map distinct_filter
        dest!: eq_key_imp_eq_value)
  have s: "set (property_order ps) = set ps"
    by (auto simp: property_order_def)
  show ?thesis
    by (rule map_of_inject_set [THEN iffD2, OF d assms s])
qed

text \<open>
  The merged object lists its keys in property order: the array indices first, ascending,
  then the other keys as they were first defined.
\<close>

lemma spread_merge_property_order:
  "spread_merge (Obj [(''b'', Num 1), (''10'', Num 2), (''01'', Num 7)])
       (Obj [(''2'', Num 3), (''b'', Num 4)])
     = Obj [(''2'', Num 3), (''10'', Num 2), (''b'', Num 4), (''01'', Num 7)]
   \<and> spread_merge (Str ''hi'') (Arr [Null])
     = Obj [(''0'', Null), (''1'', Str ''i'')]
   \<and> spread_merge Undefined (Num 5) = Obj []"
  by code_simp

lemma spread_merge_lookup:
  assumes "distinct (map fst (own_props a))" and "distinct (map fst (own_props b))"
  shows "map_of (own_props (spread_merge a b)) f =
           (case map_of (own_props b) f of Some x \<Rightarrow> Some x | None \<Rightarrow> map_of (own_props a) f)"
  using assms
  by (simp add: spread_merge_def object_of_def map_of_property_order distinct_fold_update
      map_of_fold_update map_of_rev_distinct map_add_def)

text \<open>
  At \<open>{name:"John", age:30}\<close> and \<open>{age:31}\<close>: the update succeeds and the local read cache
  and the worker hold \<open>{name:"John", age:31}\<close>; on a key that was never written it fails
  with the not-found error.
\<close>

lemma update_john:
  "snd (getItem (browser True) (john_written True) ''k'') = Inr (succeed john)
   \<and> spread_merge john age31 = john31
   \<and> snd (updateItem (browser True) [] (john_written True) ''k'' age31 None) = Inr (succeed john31)
   \<and> map_of (cacheStore (fst (updateItem (browser True) [] (john_written True) ''k'' age31 None))) ''k''
        = Some john31
   \<and> map_option entry_data
         (on_retrieve ''k'' (fst (updateItem (browser True) [] (john_written True) ''k'' age31 None)))
        = Some (text_payload (stringify john31))
   \<and> snd (updateItem (browser True) [] (john_written True) ''other'' age31 None)
        = Inr (fail (ItemWithKeyNotFound ''other''))"
  by code_simp

text \<open>
  Claim C7, at a stored value that is falsy. After the successful \<^verbatim>\<open>setItem("k", 0)\<close> the
  read \<^verbatim>\<open>getItem("k")\<close> succeeds with \<open>0\<close>, so by the claim \<^verbatim>\<open>updateItem("k", {age:31})\<close>
  stores the merge \<^verbatim>\<open>{ ...0, ...{age:31} }\<close>, which is \<open>{age:31}\<close>, and \<^verbatim>\<open>setItem\<close> of that merge
  does succeed in the state the read left. \<^verbatim>\<open>updateItem\<close> instead fails with
  \<open>Item with key k not found\<close> and leaves \<open>0\<close> stored: its guard
  \<^verbatim>\<open>!current.success || !current.data\<close> takes the falsy value for a missing one. The same on
  both backends.
\<close>

theorem update_rejects_falsy_value:
  "snd (zero_written True) = Inr (succeed (Num 0))
   \<and> snd (getItem (browser True) (fst (zero_written True)) ''k'') = Inr (succeed (Num 0))
   \<and> spread_merge (Num 0) age31 = age31
   \<and> snd (setItem (browser True) [] (fst (getItem (browser True) (fst (zero_written True)) ''k''))
             ''k'' (spread_merge (Num 0) age31) None)
        = Inr (succeed age31)
   \<and> snd (updateItem (browser True) [] (fst (zero_written True)) ''k'' age31 None)
        = Inr (fail (ItemWithKeyNotFound ''k''))
   \<and> map_of (cacheStore (fst (updateItem (browser True) [] (fst (zero_written True)) ''k'' age31 None)))
         ''k''
        = Some (Num 0)
   \<and> snd (getItem (browser False) (fst (zero_written False)) ''k'') = Inr (succeed (Num 0))
   \<and> snd (updateItem (browser False) [] (fst (zero_written False)) ''k'' age31 None)
        = Inr (fail (ItemWithKeyNotFound ''k''))"
  by code_simp

section \<open>The metadata of an entry\<close>

lemma compress_cases: "compress P w s = text_payload s \<or> (\<exists>bs. compress P w s = PBytes bs)"
  by (auto simp: compress_def split: option.splits)

lemma text_payload_not_bytes [simp]: "text_payload s \<noteq> PBytes bs" "PBytes bs \<noteq> text_payload s"
  by (cases s; simp)+

lemma json_image_text_payload [simp]: "json_image_payload (text_payload s) = text_payload s"
  by (cases s) simp_all

lemma cache_named_update [simp]:
  "cache_named (w\<lparr>caches := AList.update ns c (caches w)\<rparr>) ns = c"
  by (simp add: cache_named_def AList.update_conv')

lemma read_after_post_store:
  "hasServiceWorker w \<Longrightarrow>
   snd (read_backend P key (post_store P key d sz w\<lparr>currentSize := n, cacheStore := cs\<rparr>)) = Inr (Some d)"
  by (simp add: read_backend_def post_retrieve_def on_retrieve_def post_store_def on_store_def
      persistToCache_def log_call_def AList.update_conv' Let_def)

lemma read_after_storeInCache:
  "\<not> hasServiceWorker w \<Longrightarrow> storeInCache P (storage_url key) d w = (w1, Inr u) \<Longrightarrow>
   snd (read_backend P key (w1\<lparr>currentSize := n, cacheStore := cs\<rparr>)) = Inr (Some (json_image d))"
  by (auto simp: read_backend_def storeInCache_def caches_open_def caches_opened_def and_then_def
      cache_put_def cache_match_def log_call_def cache_named_def AList.update_conv' Let_def
      split: if_splits)




section \<open>What the operations return\<close>

lemma updateItem_result:
  "(\<exists>x. snd (updateItem P iv w key u schema) = Inr (succeed x))
   \<or> (\<exists>e. snd (updateItem P iv w key u schema) = Inr (fail e))"
  using updateItem_cases [of P w key iv u schema]
    setItem_result [of P iv "fst (getItem P w key)" key _ schema]
  by (metis snd_conv)

lemma structured_Result [simp]: "structured (Result (succeed x))" "structured (Result (fail e))"
  by (simp_all add: structured_def)

lemma fold_log_call:
  "fold (\<lambda>(url, body) v. log_call (CacheMatch url) v) cache w
     = w\<lparr>calls := calls w @ map (\<lambda>(url, body). CacheMatch url) cache\<rparr>"
  by (induction cache arbitrary: w) (auto simp: log_call_def)

lemma log_call_simps [simp]:
  "maxSize (log_call c w) = maxSize w"
  "encryptionKey (log_call c w) = encryptionKey w"
  "namespace (log_call c w) = namespace w"
  "hasWebCrypto (log_call c w) = hasWebCrypto w"
  "hasServiceWorker (log_call c w) = hasServiceWorker w"
  "compression (log_call c w) = compression w"
  "currentSize (log_call c w) = currentSize w"
  "cacheStore (log_call c w) = cacheStore w"
  "initPromise (log_call c w) = initPromise w"
  "storage (log_call c w) = storage w"
  "caches (log_call c w) = caches w"
  "calls (log_call c w) = calls w @ [c]"
  by (simp_all add: log_call_def)

lemma calculateCurrentSize_returns:
  "snd (calculateCurrentSize P w) = Inr (currentSize (fst (calculateCurrentSize P w)))
   \<and> maxSize (fst (calculateCurrentSize P w)) = maxSize w"
  by (auto simp: calculateCurrentSize_def calculateCurrentSize_start_def
        calculateCurrentSize_resume_def try_catch_def and_then_def caches_opened_def
        calculateCacheSize_def fold_log_call Let_def
      split: prod.splits sum.splits)

lemma getStats_returns:
  "\<exists>st. snd (getStats P w) = Inr st
        \<and> used st = currentSize (fst (getStats P w))
        \<and> total st = maxSize w
        \<and> available st = total st - used st
        \<and> percentUsed st = real_of_int (used st) / real_of_int (total st) * 100"
  using calculateCurrentSize_returns [of P w]
  by (cases "calculateCurrentSize P w") (auto simp: getStats_def and_then_def)

lemma removeItem_returns: "snd (removeItem P w key) = Inr (\<not> caches_reject P)"
  by (simp add: removeItem_def try_catch_def and_then_def caches_open_def caches_opened_def)

lemma clear_returns: "snd (clear P w) = Inr (\<not> caches_reject P)"
  by (simp add: clear_def try_catch_def Let_def)

lemma getCompressionStats_returns:
  "snd (getCompressionStats P w key)
     = Inr (case snd (read_backend P key w) of
              Inr (Some e) \<Rightarrow> map_option compression_stats (entry_metadata e)
            | _ \<Rightarrow> None)"
  by (cases "read_backend P key w")
    (auto simp: getCompressionStats_def try_catch_def and_then_def
      split: sum.splits option.splits)



section \<open>Initialization\<close>

lemma no_Register_in_matches [simp]:
  "Register \<notin> set (map (\<lambda>(url, body). CacheMatch url) cache)"
  by (induction cache) auto

lemma initPromise_calculateCurrentSize_resume [simp]:
  "initPromise (fst (calculateCurrentSize_resume P w)) = initPromise w"
  by (auto simp: calculateCurrentSize_resume_def try_catch_def and_then_def caches_opened_def
        calculateCacheSize_def fold_log_call Let_def
      split: prod.splits sum.splits)

lemma initPromise_calculateCurrentSize [simp]:
  "initPromise (fst (calculateCurrentSize P w)) = initPromise w"
  by (simp add: calculateCurrentSize_def calculateCurrentSize_start_def)

lemma calls_calculateCurrentSize_resume:
  "\<exists>cs. calls (fst (calculateCurrentSize_resume P w)) = calls w @ cs \<and> Register \<notin> set cs"
  by (auto simp: calculateCurrentSize_resume_def try_catch_def and_then_def caches_opened_def
        calculateCacheSize_def fold_log_call Let_def
      split: prod.splits sum.splits)

lemma calls_calculateCurrentSize:
  "\<exists>cs. calls (fst (calculateCurrentSize P w)) = calls w @ cs \<and> Register \<notin> set cs"
proof -
  obtain cs where "calls (fst (calculateCurrentSize P w)) = calls (calculateCurrentSize_start w) @ cs"
    "Register \<notin> set cs"
    using calls_calculateCurrentSize_resume [of P "calculateCurrentSize_start w"]
    by (auto simp: calculateCurrentSize_def)
  then show ?thesis
    by (cases "hasServiceWorker w") (simp_all add: calculateCurrentSize_start_def)
qed

lemma calls_init_resume:
  "\<exists>cs. calls (fst (init_resume P w)) = calls w @ cs \<and> Register \<notin> set cs"
proof (cases "hasServiceWorker w")
  case True
  obtain w1 where w1: "initServiceWorker_resume P w = (w1, Inr ())" "calls w1 = calls w"
    by (cases "register_resolves P") (simp_all add: initServiceWorker_resume_def try_catch_def)
  obtain cs where "calls (fst (calculateCurrentSize P w1)) = calls w1 @ cs" "Register \<notin> set cs"
    using calls_calculateCurrentSize [of P w1] by blast
  then show ?thesis
    using True w1
    by (cases "calculateCurrentSize P w1")
      (auto simp: init_resume_def try_catch_def and_then_def split: sum.splits)
next
  case False
  obtain cs where "calls (fst (calculateCurrentSize_resume P w)) = calls w @ cs" "Register \<notin> set cs"
    using calls_calculateCurrentSize_resume [of P w] by blast
  then show ?thesis
    using False
    by (cases "calculateCurrentSize_resume P w")
      (auto simp: init_resume_def try_catch_def and_then_def split: sum.splits)
qed

lemma calls_await:
  "\<exists>cs. calls (await_initPromise P w) = calls w @ cs \<and> Register \<notin> set cs"
  using calls_init_resume [of P w] by (auto simp: await_initPromise_def)

lemma initPromise_setItem [simp]: "initPromise (fst (setItem P iv w key v schema)) = Resolved"
  by (auto simp: setItem_def setItem_try_def try_catch_def and_then_def Let_def storeInCache_def
        caches_open_def caches_opened_def cache_put_def
        post_store_def on_store_def persistToCache_def
      split: option.splits sum.splits prod.splits if_splits)

lemma initPromise_getItem [simp]: "initPromise (fst (getItem P w key)) = Resolved"
  by (auto simp: getItem_def fetch_item_def read_backend_def post_retrieve_def caches_open_def
        caches_opened_def cache_match_def try_catch_def and_then_def Let_def
      split: option.splits sum.splits prod.splits if_splits)

lemma initPromise_updateItem [simp]: "initPromise (fst (updateItem P iv w key u schema)) = Resolved"
  using updateItem_cases [of P w key iv u schema]
    initPromise_setItem [of P iv "fst (getItem P w key)" key _ schema]
    initPromise_getItem [of P w key]
  by (metis fst_conv)

lemma initPromise_kept:
  "initPromise (fst (removeItem P w key)) = initPromise w"
  "initPromise (fst (clear P w)) = initPromise w"
  "initPromise (fst (getStats P w)) = initPromise w"
  "initPromise (fst (getCompressionStats P w key)) = initPromise w"
proof -
  show "initPromise (fst (removeItem P w key)) = initPromise w"
    by (simp add: removeItem_def try_catch_def and_then_def caches_open_def caches_opened_def
        cache_delete_def)
  show "initPromise (fst (clear P w)) = initPromise w"
    by (simp add: clear_def try_catch_def Let_def)
  show "initPromise (fst (getStats P w)) = initPromise w"
    using initPromise_calculateCurrentSize [of P w] calculateCurrentSize_returns [of P w]
    by (cases "calculateCurrentSize P w") (auto simp: getStats_def and_then_def)
  show "initPromise (fst (getCompressionStats P w key)) = initPromise w"
    by (auto simp: getCompressionStats_def read_backend_def post_retrieve_def caches_open_def
          caches_opened_def cache_match_def try_catch_def and_then_def
        split: option.splits sum.splits prod.splits)
qed

lemma initPromise_invoke:
  "initPromise w = Resolved \<Longrightarrow> initPromise (fst (invoke P iv w op)) = Resolved"
  by (cases op) (simp_all add: invoke_def initPromise_kept)

lemma setItem_awaits: "setItem P iv w key v schema = setItem P iv (await_initPromise P w) key v schema"
  by (simp add: setItem_def setItem_try_def await_initPromise_Resolved [of "await_initPromise P w"])

lemma getItem_awaits: "getItem P w key = getItem P (await_initPromise P w) key"
  by (simp add: getItem_def await_initPromise_Resolved [of "await_initPromise P w"])

lemma updateItem_awaits:
  "updateItem P iv w key u schema = updateItem P iv (await_initPromise P w) key u schema"
  using getItem_awaits [of P w key] by (simp add: updateItem_def)

lemma calls_setItem:
  "\<exists>cs. calls (fst (setItem P iv w key v schema)) = calls (await_initPromise P w) @ cs
        \<and> Register \<notin> set cs"
  by (auto simp: setItem_def setItem_try_def try_catch_def and_then_def Let_def storeInCache_def
        caches_open_def caches_opened_def cache_put_def
        post_store_def on_store_def persistToCache_def
      split: option.splits sum.splits prod.splits if_splits)

lemma calls_getItem:
  "\<exists>cs. calls (fst (getItem P w key)) = calls (await_initPromise P w) @ cs \<and> Register \<notin> set cs"
  by (auto simp: getItem_def fetch_item_def read_backend_def post_retrieve_def caches_open_def
        caches_opened_def cache_match_def try_catch_def and_then_def Let_def
      split: option.splits sum.splits prod.splits if_splits)

lemma calls_updateItem:
  "\<exists>cs. calls (fst (updateItem P iv w key u schema)) = calls (await_initPromise P w) @ cs
        \<and> Register \<notin> set cs"
proof -
  let ?w1 = "fst (getItem P w key)"
  obtain cs where cs: "calls ?w1 = calls (await_initPromise P w) @ cs" "Register \<notin> set cs"
    using calls_getItem [of P w key] by auto
  have r1: "initPromise ?w1 = Resolved"
    by simp
  have s: "\<exists>cs'. calls (fst (setItem P iv ?w1 key x schema)) = calls ?w1 @ cs' \<and> Register \<notin> set cs'"
    for x
    using calls_setItem [of P iv ?w1 key x schema] await_initPromise_Resolved [OF r1] by auto
  from updateItem_cases [of P w key iv u schema] show ?thesis
  proof
    assume "\<exists>cur. snd (getItem P w key) = Inr (succeed cur) \<and> truthy cur
          \<and> updateItem P iv w key u schema = setItem P iv ?w1 key (spread_merge cur u) schema"
    then obtain cur where
      u: "updateItem P iv w key u schema = setItem P iv ?w1 key (spread_merge cur u) schema"
      by blast
    obtain cs' where "calls (fst (setItem P iv ?w1 key (spread_merge cur u) schema)) = calls ?w1 @ cs'"
      "Register \<notin> set cs'"
      using s [of "spread_merge cur u"] by blast
    then show ?thesis
      using cs u by (intro exI [of _ "cs @ cs'"]) simp
  next
    assume "updateItem P iv w key u schema = (?w1, Inr (fail (ItemWithKeyNotFound key)))"
    then show ?thesis
      using cs by auto
  qed
qed

lemma calls_others:
  "\<exists>cs. calls (fst (removeItem P w key)) = calls w @ cs \<and> Register \<notin> set cs"
  "\<exists>cs. calls (fst (clear P w)) = calls w @ cs \<and> Register \<notin> set cs"
  "\<exists>cs. calls (fst (getStats P w)) = calls w @ cs \<and> Register \<notin> set cs"
  "\<exists>cs. calls (fst (getCompressionStats P w key)) = calls w @ cs \<and> Register \<notin> set cs"
proof -
  show "\<exists>cs. calls (fst (removeItem P w key)) = calls w @ cs \<and> Register \<notin> set cs"
    by (simp add: removeItem_def try_catch_def and_then_def caches_open_def caches_opened_def
        cache_delete_def)
  show "\<exists>cs. calls (fst (clear P w)) = calls w @ cs \<and> Register \<notin> set cs"
    by (simp add: clear_def try_catch_def Let_def)
  show "\<exists>cs. calls (fst (getStats P w)) = calls w @ cs \<and> Register \<notin> set cs"
    using calls_calculateCurrentSize [of P w] calculateCurrentSize_returns [of P w]
    by (cases "calculateCurrentSize P w") (auto simp: getStats_def and_then_def)
  show "\<exists>cs. calls (fst (getCompressionStats P w key)) = calls w @ cs \<and> Register \<notin> set cs"
    by (auto simp: getCompressionStats_def read_backend_def post_retrieve_def caches_open_def
          caches_opened_def cache_match_def try_catch_def and_then_def
        split: option.splits sum.splits prod.splits)
qed

lemma count_list_unregistered:
  "ys = xs @ cs \<and> Register \<notin> set cs \<Longrightarrow> count_list ys Register = count_list xs Register"
  by (auto simp: count_list_0_iff)

lemma registrations_invoke:
  "count_list (calls (fst (invoke P iv w op))) Register = count_list (calls w) Register"
proof -
  obtain c0 where c0: "calls (await_initPromise P w) = calls w @ c0 \<and> Register \<notin> set c0"
    using calls_await [of P w] by blast
  have a: "count_list (calls (await_initPromise P w)) Register = count_list (calls w) Register"
    using c0 by (rule count_list_unregistered)
  show ?thesis
  proof (cases op)
    case (SetItem key v schema)
    obtain cs where "calls (fst (setItem P iv w key v schema)) = calls (await_initPromise P w) @ cs
        \<and> Register \<notin> set cs"
      using calls_setItem [of P iv w key v schema] by blast
    then show ?thesis
      using SetItem a count_list_unregistered by (simp add: invoke_def)
  next
    case (GetItem key)
    obtain cs where "calls (fst (getItem P w key)) = calls (await_initPromise P w) @ cs
        \<and> Register \<notin> set cs"
      using calls_getItem [of P w key] by blast
    then show ?thesis
      using GetItem a count_list_unregistered by (simp add: invoke_def)
  next
    case (UpdateItem key u schema)
    obtain cs where "calls (fst (updateItem P iv w key u schema)) = calls (await_initPromise P w) @ cs
        \<and> Register \<notin> set cs"
      using calls_updateItem [of P iv w key u schema] by blast
    then show ?thesis
      using UpdateItem a count_list_unregistered by (simp add: invoke_def)
  next
    case (RemoveItem key)
    then show ?thesis
      using calls_others(1) [of P w key] count_list_unregistered by (auto simp: invoke_def)
  next
    case Clear
    then show ?thesis
      using calls_others(2) [of P w] count_list_unregistered by (auto simp: invoke_def)
  next
    case GetStats
    then show ?thesis
      using calls_others(3) [of P w] count_list_unregistered by (auto simp: invoke_def)
  next
    case (GetCompressionStats key)
    then show ?thesis
      using calls_others(4) [of P w key] count_list_unregistered by (auto simp: invoke_def)
  qed
qed

lemma constructor_starts_init:
  "initPromise (constructor P options sw cs) = Pending
   \<and> calls (constructor P options sw cs)
        = [if serviceWorker_in_navigator P then Register
           else CachesOpen (namespace (constructor P options sw cs))]"
  by (simp add: constructor_def new_facade_def init_start_def initServiceWorker_start_def
      calculateCurrentSize_start_def)

text \<open>
  The two parts of \<^verbatim>\<open>init\<close> make up the whole: awaiting the promise of a facade just
  constructed leaves the state in which \<^verbatim>\<open>init\<close>, run from the fields the constructor
  set, ends.
\<close>

lemma init_in_two_parts:
  "await_initPromise P (constructor P options sw cs)
     = (fst (init P (new_facade P options sw cs)))\<lparr>initPromise := Resolved\<rparr>"
  using constructor_starts_init [of P options sw cs]
  by (simp add: await_initPromise_def init_def constructor_def)




section \<open>The round trip\<close>

lemma decode_encode_text [simp]: "TextDecoder_decode (TextEncoder_encode s) = s"
  by (simp add: TextDecoder_decode_def TextEncoder_encode_def comp_def map_idI)

lemma decompress_compressed:
  assumes "compress P w (Some s) = PBytes bs"
    and "compression w' = compression w"
    and "CompressionStream_in_window P = DecompressionStream_in_window P"
    and "\<And>out. stream_gzip P (TextEncoder_encode s) = Some out \<Longrightarrow>
           stream_gunzip P out = Some (TextEncoder_encode s)"
    and "\<And>out. pako_gzip P (Some s) (level (compression w)) = Some out \<Longrightarrow>
           pako_ungzip P (PBytes out) = Some s"
  shows "decompress P w' (PBytes bs) = Inr (PString s)"
  using assms
  by (auto simp: compress_def decompress_def split: if_splits option.splits)

lemma decrypt_encrypted:
  assumes "encrypt P w iv c = Inr enc"
    and "c = PString s \<or> c = PBytes bs"
    and "encryptionKey w' = encryptionKey w" and "hasWebCrypto w' = hasWebCrypto w"
    and "\<And>k pt ct. subtle_encrypt P k iv pt = Some ct \<Longrightarrow> subtle_decrypt P k iv ct = Some pt"
    and "atob P (btoa P bs) = Some bs"
  shows "decrypt P w' (PEncrypted enc) = Inr c"
  using assms
  by (auto simp: encrypt_def decrypt_def dataToString_def stringToData_def
      split: option.splits if_splits)

text \<open>
  Decoding inverts encoding. Let the payload \<open>d\<close> be what \<^verbatim>\<open>setItem\<close> builds from the value:
  the serialized text, compressed or not, encrypted when a key is configured. For a value
  that \<^verbatim>\<open>JSON.parse\<close> reads back from its serialized text, on a platform whose gzip, AES-GCM
  and base64 are inverted by their counterparts, \<^verbatim>\<open>getItem\<close>'s decoding of the entry with
  that payload and the metadata \<^verbatim>\<open>setItem\<close> writes gives the value back, under the same
  configuration.
\<close>

lemma decode_inverts_encode:
  fixes P w w' iv v s a b
  defines "c \<equiv> compress P w (Some s)"
  assumes cfg: "encryptionKey w' = encryptionKey w" "hasWebCrypto w' = hasWebCrypto w"
      "compression w' = compression w"
    and json: "JSON_stringify P v = Some s" "s \<noteq> []" "JSON_parse P s = Some v"
    and enc: "(case encryptionKey w of
                 None \<Rightarrow> Inr c
               | Some k \<Rightarrow> if k = [] then Inr c else map_sum id PEncrypted (encrypt P w iv c)) = Inr d"
    and streams: "CompressionStream_in_window P = DecompressionStream_in_window P"
    and gzip: "\<And>out. stream_gzip P (TextEncoder_encode s) = Some out \<Longrightarrow>
           stream_gunzip P out = Some (TextEncoder_encode s)"
    and pako: "\<And>out. pako_gzip P (Some s) (level (compression w)) = Some out \<Longrightarrow>
           pako_ungzip P (PBytes out) = Some s"
    and aes: "\<And>k pt ct. subtle_encrypt P k iv pt = Some ct \<Longrightarrow> subtle_decrypt P k iv ct = Some pt"
    and base64: "\<And>bs. atob P (btoa P bs) = Some bs"
  shows "decode P w'
           (Some \<lparr> entry_data = d,
                   entry_metadata = Some \<lparr> compressed = (c \<noteq> PString s), originalSize = a,
                                           compressedSize = b \<rparr> \<rparr>) = Inr v"
proof -
  have cs: "c = PString s \<or> (\<exists>bs. c = PBytes bs)"
    using compress_cases [of P w "Some s"] unfolding c_def by simp
  then consider (plain) "c = PString s" | (gz) bs where "c = PBytes bs"
    by blast
  then have dc: "(if c \<noteq> PString s then decompress P w' c else Inr c) = Inr (PString s)"
  proof cases
    case plain
    then show ?thesis by simp
  next
    case gz
    then show ?thesis
      using decompress_compressed [of P w s bs w'] cfg(3) streams gzip pako
      unfolding c_def by simp
  qed
  show ?thesis
  proof (cases "case encryptionKey w of None \<Rightarrow> True | Some k \<Rightarrow> k = []")
    case True
    then have "d = c"
      using enc by (auto split: option.splits)
    moreover have "payload_truthy c"
      using cs json(2) by auto
    ultimately show ?thesis
      using True dc json(3) cfg(1) by (auto simp: decode_def split: option.splits)
  next
    case False
    then obtain k where k: "encryptionKey w = Some k" "k \<noteq> []"
      by (auto split: option.splits)
    then obtain e where e: "encrypt P w iv c = Inr e" "d = PEncrypted e"
      using enc by (cases "encrypt P w iv c") auto
    have "decrypt P w' (PEncrypted e) = Inr c"
      using cs
    proof
      assume "c = PString s"
      then show ?thesis
        using decrypt_encrypted [of P w iv c e s "[]" w'] e cfg aes base64 by blast
    next
      assume "\<exists>bs. c = PBytes bs"
      then obtain bs where "c = PBytes bs" by blast
      then show ?thesis
        using decrypt_encrypted [of P w iv c e s bs w'] e cfg aes base64 by blast
    qed
    then show ?thesis
      using k e dc json(3) cfg(1) by (simp add: decode_def)
  qed
qed

lemma read_backend_settings:
  "encryptionKey (fst (read_backend P key w)) = encryptionKey w
   \<and> hasWebCrypto (fst (read_backend P key w)) = hasWebCrypto w
   \<and> compression (fst (read_backend P key w)) = compression w
   \<and> cacheStore (fst (read_backend P key w)) = cacheStore w"
  by (auto simp: read_backend_def post_retrieve_def caches_open_def caches_opened_def
      cache_match_def and_then_def Let_def split: prod.splits)

lemma setItem_settings:
  "encryptionKey (fst (setItem P iv w key v schema)) = encryptionKey (await_initPromise P w)
   \<and> hasWebCrypto (fst (setItem P iv w key v schema)) = hasWebCrypto (await_initPromise P w)
   \<and> compression (fst (setItem P iv w key v schema)) = compression (await_initPromise P w)
   \<and> initPromise (fst (setItem P iv w key v schema)) = Resolved"
  by (auto simp: setItem_def setItem_try_def try_catch_def and_then_def Let_def storeInCache_def
        caches_open_def caches_opened_def cache_put_def
        post_store_def on_store_def persistToCache_def
      split: option.splits sum.splits prod.splits if_splits)

lemma setItem_stores:
  fixes P iv w key v schema cs
  defines "w0 \<equiv> await_initPromise P w"
  defines "s \<equiv> JSON_stringify P v"
  defines "c \<equiv> compress P w0 s"
  assumes "snd (setItem P iv w key v schema) = Inr (succeed v)"
  shows "\<exists>d. (case encryptionKey w0 of
                 None \<Rightarrow> Inr c
               | Some k \<Rightarrow> if k = [] then Inr c else map_sum id PEncrypted (encrypt P w0 iv c)) = Inr d
            \<and> snd (read_backend P key ((fst (setItem P iv w key v schema))\<lparr>cacheStore := cs\<rparr>))
                = Inr (Some ((if hasServiceWorker w0 then id else json_image)
                               \<lparr> entry_data = d,
                                 entry_metadata =
                                   Some \<lparr> compressed = (c \<noteq> text_payload s),
                                          originalSize = payload_size (text_payload s),
                                          compressedSize = payload_size c \<rparr> \<rparr>))"
  using assms(4) unfolding w0_def s_def c_def
  by (auto simp: setItem_def setItem_try_def try_catch_def and_then_def Let_def
        read_after_post_store read_after_storeInCache
      split: option.splits sum.splits prod.splits if_splits)

text \<open>
  The round trip through the backend, for the reads that do not stop at the local read
  cache (the cache holds nothing truthy for the key): \<^verbatim>\<open>getItem\<close> after a successful
  \<^verbatim>\<open>setItem\<close> returns the value when the backend is the worker, or a key is configured,
  or the compression step left the text as it was.
\<close>

lemma getItem_miss:
  assumes "initPromise w = Resolved"
    and "case map_of (cacheStore w) key of None \<Rightarrow> True | Some x \<Rightarrow> \<not> truthy x"
  shows "getItem P w key = try_catch (fetch_item P key w) (\<lambda>w1 e. (w1, Inr (fail e)))"
  using assms by (auto simp: getItem_def await_initPromise_Resolved split: option.splits)

lemma roundtrip_from_backend:
  fixes P iv w key v schema cs s
  defines "w0 \<equiv> await_initPromise P w"
  defines "c \<equiv> compress P w0 (Some s)"
  assumes ok: "snd (setItem P iv w key v schema) = Inr (succeed v)"
    and miss: "case map_of cs key of None \<Rightarrow> True | Some x \<Rightarrow> \<not> truthy x"
    and json: "JSON_stringify P v = Some s" "s \<noteq> []" "JSON_parse P s = Some v"
    and sound: "hasServiceWorker w0 \<or> (\<exists>k. encryptionKey w0 = Some k \<and> k \<noteq> []) \<or> c = PString s"
    and streams: "CompressionStream_in_window P = DecompressionStream_in_window P"
    and gzip: "\<And>out. stream_gzip P (TextEncoder_encode s) = Some out \<Longrightarrow>
           stream_gunzip P out = Some (TextEncoder_encode s)"
    and pako: "\<And>out. pako_gzip P (Some s) (level (compression w0)) = Some out \<Longrightarrow>
           pako_ungzip P (PBytes out) = Some s"
    and aes: "\<And>k pt ct. subtle_encrypt P k iv pt = Some ct \<Longrightarrow> subtle_decrypt P k iv ct = Some pt"
    and base64: "\<And>bs. atob P (btoa P bs) = Some bs"
  shows "snd (getItem P ((fst (setItem P iv w key v schema))\<lparr>cacheStore := cs\<rparr>) key)
           = Inr (succeed v)"
proof -
  let ?w1 = "(fst (setItem P iv w key v schema))\<lparr>cacheStore := cs\<rparr>"
  let ?m = "Some \<lparr> compressed = (c \<noteq> PString s), originalSize = payload_size (PString s),
                   compressedSize = payload_size c \<rparr>"
  have "\<exists>d. (case encryptionKey w0 of
                 None \<Rightarrow> Inr c
               | Some k \<Rightarrow> if k = [] then Inr c else map_sum id PEncrypted (encrypt P w0 iv c)) = Inr d
            \<and> snd (read_backend P key ?w1)
                = Inr (Some ((if hasServiceWorker w0 then id else json_image)
                               \<lparr> entry_data = d, entry_metadata = ?m \<rparr>))"
    using setItem_stores [OF ok, of cs] unfolding w0_def c_def json(1) by simp
  then obtain d where enc: "(case encryptionKey w0 of
                 None \<Rightarrow> Inr c
               | Some k \<Rightarrow> if k = [] then Inr c else map_sum id PEncrypted (encrypt P w0 iv c)) = Inr d"
    and rd: "snd (read_backend P key ?w1)
                = Inr (Some ((if hasServiceWorker w0 then id else json_image)
                               \<lparr> entry_data = d, entry_metadata = ?m \<rparr>))"
    by blast
  have "json_image_payload d = d" if "\<not> hasServiceWorker w0"
  proof -
    from that sound consider (key) k where "encryptionKey w0 = Some k" "k \<noteq> []" | (plain) "c = PString s"
      by blast
    then show ?thesis
    proof cases
      case key
      then show ?thesis
        using enc by (cases "encrypt P w0 iv c") auto
    next
      case plain
      then show ?thesis
        using enc by (auto split: option.splits if_splits simp: encrypt_def)
    qed
  qed
  then have rd': "snd (read_backend P key ?w1) = Inr (Some \<lparr> entry_data = d, entry_metadata = ?m \<rparr>)"
    using rd by (simp add: json_image_def)
  have cfg: "encryptionKey (fst (read_backend P key ?w1)) = encryptionKey w0"
    "hasWebCrypto (fst (read_backend P key ?w1)) = hasWebCrypto w0"
    "compression (fst (read_backend P key ?w1)) = compression w0"
    using read_backend_settings [of P key ?w1] setItem_settings [of P iv w key v schema]
    unfolding w0_def by simp_all
  have dec: "decode P (fst (read_backend P key ?w1))
               (Some \<lparr> entry_data = d, entry_metadata = ?m \<rparr>) = Inr v"
    using decode_inverts_encode [of "fst (read_backend P key ?w1)" w0 P v s iv d]
      cfg json enc streams gzip pako aes base64
    unfolding c_def by blast
  have "getItem P ?w1 key = try_catch (fetch_item P key ?w1) (\<lambda>w1 e. (w1, Inr (fail e)))"
    using setItem_settings [of P iv w key v schema] miss by (intro getItem_miss) simp_all
  then show ?thesis
    using rd' dec
    by (cases "read_backend P key ?w1") (simp add: fetch_item_def try_catch_def and_then_def)
qed

text \<open>
  The same on the reference platform, read by a second instance constructed on the
  backend the first one wrote to (a page reload): compressed on the worker, compressed
  and encrypted on both backends, plain on both backends.
\<close>

lemma roundtrip_worker_compressed:
  "snd (gzip_written True) = Inr (succeed x1)
   \<and> snd (getItem (browser True) (reloaded (browser True) gzip_options (fst (gzip_written True))) ''a'')
      = Inr (succeed x1)"
  by code_simp

lemma roundtrip_encrypted_compressed:
  "snd (sealed_gzip_written False) = Inr (succeed x1)
   \<and> snd (getItem (browser False)
            (reloaded (browser False) sealed_gzip_options (fst (sealed_gzip_written False))) ''a'')
      = Inr (succeed x1)
   \<and> snd (sealed_gzip_written True) = Inr (succeed x1)
   \<and> snd (getItem (browser True)
            (reloaded (browser True) sealed_gzip_options (fst (sealed_gzip_written True))) ''a'')
      = Inr (succeed x1)"
  by code_simp

lemma roundtrip_plain:
  "snd (getItem (browser False) (reloaded (browser False) scenario_options (fst (scenario_set False))) ''a'')
      = Inr (succeed x1)
   \<and> snd (getItem (browser True) (reloaded (browser True) scenario_options (fst (scenario_set True))) ''a'')
      = Inr (succeed x1)"
  by code_simp

text \<open>
  The value \<open>undefined\<close> has no serialized form: \<^verbatim>\<open>setItem("u", undefined)\<close> succeeds with
  \<open>data: undefined\<close> and stores an entry without payload, whose metadata counts the 9
  bytes of the text \<open>undefined\<close>; a read from the backend reports the item as not found.
\<close>

lemma undefined_is_not_read_back:
  "snd (undefined_written True) = Inr (succeed Undefined)
   \<and> on_retrieve ''u'' (fst (undefined_written True))
        = Some \<lparr> entry_data = PUndefined,
                 entry_metadata =
                   Some \<lparr> compressed = False, originalSize = 9, compressedSize = 9 \<rparr> \<rparr>
   \<and> snd (getItem (browser True) (fst (undefined_written True)) ''u'') = Inr (fail ItemNotFound)
   \<and> snd (getItem (browser False) (fst (undefined_written False)) ''u'') = Inr (fail ItemNotFound)"
  by code_simp

text \<open>
  Claim C1 fails in the remaining case: direct backend, compression on, no key.
  \<^verbatim>\<open>storeInCache\<close> writes \<^verbatim>\<open>JSON.stringify(storageData)\<close>, which turns the
  \<^verbatim>\<open>Uint8Array\<close> of gzip bytes into an object keyed by indices; \<^verbatim>\<open>response.json()\<close> gives
  that plain object back, and \<^verbatim>\<open>decompress\<close> hands it to the \<^verbatim>\<open>DecompressionStream\<close>, whose
  \<^verbatim>\<open>write\<close> rejects it. With \<open>threshold = 1\<close>, \<open>setItem("a", {x:1})\<close> succeeds and a second
  instance's \<open>getItem("a")\<close> fails with a \<^verbatim>\<open>TypeError\<close>; so does \<open>getItem("k")\<close> on the
  same instance after \<open>setItem("k", 0)\<close>, where the cached \<open>0\<close> does not stop the read.
  (With a key the bytes are base64 text inside the ciphertext and survive.)
\<close>

theorem roundtrip_lost_direct_compressed:
  "snd (gzip_written False) = Inr (succeed x1)
   \<and> map_option entry_data
        (map_of (cache_named (fst (gzip_written False)) ''application'')
           ''/cache-local-storage/storage/a'')
      = Some (PIndexed [(''0'', 31), (''1'', 139), (''2'', 123), (''3'', 34), (''4'', 120),
                        (''5'', 34), (''6'', 58), (''7'', 49), (''8'', 125)])
   \<and> snd (getItem (browser False) (reloaded (browser False) gzip_options (fst (gzip_written False))) ''a'')
      = Inr (fail TypeError)
   \<and> snd (gzip_zero_written False) = Inr (succeed (Num 0))
   \<and> snd (getItem (browser False) (fst (gzip_zero_written False)) ''k'') = Inr (fail TypeError)"
  by code_simp

end
